theory Spec2Isabelle
  imports Main
begin

section \<open>Strings and project names (src/utils/security.ts)\<close>

text \<open>
  JavaScript strings are modelled as \<^typ>\<open>string\<close>: a list of code units below 256
  (the Latin-1 range). \<open>String.prototype.toLowerCase\<close> maps \<open>A..Z\<close> to \<open>a..z\<close>; every
  other code unit of that range is mapped to a code unit outside \<open>[a-z0-9-]\<close>, so
  leaving it unchanged gives the same result once \<open>/[^a-z0-9-]/g\<close> has been applied.
\<close>

definition lowerChar :: "char \<Rightarrow> char" where
  "lowerChar c =
     (case map_of (zip ''ABCDEFGHIJKLMNOPQRSTUVWXYZ'' ''abcdefghijklmnopqrstuvwxyz'') c of
        Some l \<Rightarrow> l
      | None \<Rightarrow> c)"

definition toLowerCase :: "string \<Rightarrow> string" where
  "toLowerCase s = map lowerChar s"

text \<open>The character class \<open>[a-z0-9-]\<close>.\<close>

definition isNameChar :: "char \<Rightarrow> bool" where
  "isNameChar c = (c \<in> set ''abcdefghijklmnopqrstuvwxyz0123456789-'')"

text \<open>\<open>.replace(/[^a-z0-9-]/g, '-')\<close>\<close>

definition replaceUnsafe :: "string \<Rightarrow> string" where
  "replaceUnsafe s = map (\<lambda>c. if isNameChar c then c else CHR ''-'') s"

text \<open>\<open>.replace(/-+/g, '-')\<close>: every maximal run of hyphens becomes one hyphen.\<close>

fun collapseHyphens :: "string \<Rightarrow> string" where
  "collapseHyphens [] = []"
| "collapseHyphens [c] = [c]"
| "collapseHyphens (c # d # cs) =
     (if c = CHR ''-'' \<and> d = CHR ''-'' then collapseHyphens (d # cs)
      else c # collapseHyphens (d # cs))"

text \<open>
  \<open>.replace(/^-|-$/g, '')\<close>: the global regex matches one hyphen at the start, if
  there is one, and then one hyphen at the end of what is left, if there is one.
\<close>

definition stripEdgeHyphens :: "string \<Rightarrow> string" where
  "stripEdgeHyphens s =
     (let s1 = (case s of [] \<Rightarrow> [] | c # cs \<Rightarrow> if c = CHR ''-'' then cs else s)
      in if s1 \<noteq> [] \<and> last s1 = CHR ''-'' then butlast s1 else s1)"

definition sanitizeProjectName :: "string \<Rightarrow> string" where
  "sanitizeProjectName name =
     stripEdgeHyphens (collapseHyphens (replaceUnsafe (toLowerCase name)))"

text \<open>The shape of a sanitized name, as three executable predicates.\<close>

fun noDoubleHyphen :: "string \<Rightarrow> bool" where
  "noDoubleHyphen [] = True"
| "noDoubleHyphen [c] = True"
| "noDoubleHyphen (c # d # cs) =
     (\<not> (c = CHR ''-'' \<and> d = CHR ''-'') \<and> noDoubleHyphen (d # cs))"

definition noLeadingHyphen :: "string \<Rightarrow> bool" where
  "noLeadingHyphen s = (case s of [] \<Rightarrow> True | c # _ \<Rightarrow> c \<noteq> CHR ''-'')"

definition noTrailingHyphen :: "string \<Rightarrow> bool" where
  "noTrailingHyphen s = (s = [] \<or> last s \<noteq> CHR ''-'')"


section \<open>The host: external commands and the file system\<close>

text \<open>
  Everything the tool reaches outside its own process is a field of \<open>host\<close>:
  \<^item> \<open>execa cmd args cwd\<close> is \<open>Some stdout\<close> when the command, run in directory
    \<open>cwd\<close>, exits with status 0 and \<open>None\<close> when the promise rejects; \<open>cwd\<close> is the
    empty string for a call that passes no \<open>cwd\<close> option;
  \<^item> \<open>pathExists\<close>, \<open>readJson\<close> (\<open>None\<close> when reading or parsing throws) and
    \<open>readdir\<close> (name and \<open>isDirectory()\<close> of each entry) read the file system;
  \<^item> \<open>writeOk p\<close> tells whether creating or writing the file \<open>p\<close> succeeds;
  \<^item> \<open>parseURL\<close> is \<open>new URL(url)\<close>, giving protocol and hostname, \<open>None\<close> when it throws.
\<close>

datatype jsval =
    JUndefined
  | JNull
  | JBool bool
  | JNum int
  | JStr string
  | JArr "jsval list"
  | JObj "(string \<times> jsval) list"

record host =
  execa :: "string \<Rightarrow> string list \<Rightarrow> string \<Rightarrow> string option"
  pathExists :: "string \<Rightarrow> bool"
  readJson :: "string \<Rightarrow> jsval option"
  readdir :: "string \<Rightarrow> (string \<times> bool) list option"
  writeOk :: "string \<Rightarrow> bool"
  parseURL :: "string \<Rightarrow> (string \<times> string) option"

text \<open>Every \<open>throw\<close> of the modelled code is a constructor of \<open>error\<close>.\<close>

datatype error =
    MetadataNotFound string
  | ManifestNotFound
  | UnknownProjectType
  | InvalidRepoUrl string
  | GitCloneFailed
  | GitPullFailed
  | InstallFailed
  | BuildFailed
  | StartScriptMissing
  | PM2StartFailed
  | PM2RestartFailed
  | BackendPortRequired
  | MonorepoPortRequired
  | UnsupportedProjectType
  | NginxWriteFailed
  | NginxConfigInvalid
  | WriteFailed string
  | JsonReadFailed string
  | RangeError

text \<open>JavaScript truthiness (\<open>!!v\<close>) and property access (\<open>v.k\<close>, \<open>v?.k\<close>) on a parsed
  JSON value. A property of a number, string, boolean or array looked up by one of the
  names used below is \<open>undefined\<close>.\<close>

fun truthy :: "jsval \<Rightarrow> bool" where
  "truthy JUndefined = False"
| "truthy JNull = False"
| "truthy (JBool b) = b"
| "truthy (JNum n) = (n \<noteq> 0)"
| "truthy (JStr s) = (s \<noteq> [])"
| "truthy (JArr _) = True"
| "truthy (JObj _) = True"

fun getProp :: "jsval \<Rightarrow> string \<Rightarrow> jsval" where
  "getProp (JObj kvs) k = (case map_of kvs k of Some v \<Rightarrow> v | None \<Rightarrow> JUndefined)"
| "getProp _ k = JUndefined"

text \<open>\<open>path.join(a, b)\<close> for a directory and a relative path below it.\<close>

definition joinPath :: "string \<Rightarrow> string \<Rightarrow> string" where
  "joinPath a b = (if b = [] then a else a @ ''/'' @ b)"

text \<open>A string or an optional string used as a condition (\<open>if (s)\<close>, \<open>s || d\<close>).\<close>

definition present :: "string option \<Rightarrow> bool" where
  "present x = (case x of None \<Rightarrow> False | Some s \<Rightarrow> s \<noteq> [])"

definition orElse :: "string option \<Rightarrow> string \<Rightarrow> string" where
  "orElse x d = (case x of None \<Rightarrow> d | Some s \<Rightarrow> if s \<noteq> [] then s else d)"

fun startsWith :: "string \<Rightarrow> string \<Rightarrow> bool" where
  "startsWith s [] = True"
| "startsWith [] (p # ps) = False"
| "startsWith (c # cs) (p # ps) = (c = p \<and> startsWith cs ps)"

fun includesStr :: "string \<Rightarrow> string \<Rightarrow> bool" where
  "includesStr [] n = (n = [])"
| "includesStr (c # cs) n = (startsWith (c # cs) n \<or> includesStr cs n)"

section \<open>Port allocation (src/utils/portFinder.ts)\<close>

text \<open>The template literal \<open>${port}\<close> for an integer port.\<close>

function showNat :: "nat \<Rightarrow> string" where
  "showNat n =
     (if n < 10 then [''0123456789'' ! n]
      else showNat (n div 10) @ [''0123456789'' ! (n mod 10)])"
  by pat_completeness auto
termination
  by (relation "measure id") auto

definition showInt :: "int \<Rightarrow> string" where
  "showInt i = (if i < 0 then CHR ''-'' # showNat (nat (- i)) else showNat (nat i))"

definition listed :: "string \<Rightarrow> int \<Rightarrow> bool" where
  "listed out port =
     (includesStr out ('':'' @ showInt port @ '' '')
      \<or> includesStr out ('':'' @ showInt port @ [CHR 0x0A]))"

definition isPortInUse :: "host \<Rightarrow> int \<Rightarrow> bool" where
  "isPortInUse h port =
     (case execa h ''ss'' [''-tuln''] [] of
        Some out \<Rightarrow> listed out port
      | None \<Rightarrow>
          (case execa h ''netstat'' [''-tuln''] [] of
             Some out \<Rightarrow> listed out port
           | None \<Rightarrow>
               (case execa h ''lsof'' [''-i'', '':'' @ showInt port] [] of
                  Some _ \<Rightarrow> True
                | None \<Rightarrow> False)))"

text \<open>The \<open>while (attempts < maxAttempts)\<close> loop, with its two counters.\<close>

function findPortLoop :: "host \<Rightarrow> int \<Rightarrow> int \<Rightarrow> int \<Rightarrow> int \<Rightarrow> int" where
  "findPortLoop h startPort maxAttempts port attempts =
     (if attempts < maxAttempts then
        (if \<not> isPortInUse h port then port
         else findPortLoop h startPort maxAttempts (port + 1) (attempts + 1))
      else startPort)"
  by pat_completeness auto
termination
  by (relation "measure (\<lambda>(h, s, m, p, a). nat (m - a))") auto

definition findAvailablePort :: "host \<Rightarrow> int \<Rightarrow> int \<Rightarrow> int" where
  "findAvailablePort h startPort maxAttempts = findPortLoop h startPort maxAttempts startPort 0"

section \<open>Project metadata (src/utils/metadata.ts)\<close>

record ProjectMetadata =
  m_name :: string
  m_repoUrl :: string
  m_branch :: string
  m_type :: string
  m_port :: "int option"
  m_basePath :: string
  m_createdAt :: string
  m_updatedAt :: string
  m_pm2ProcessName :: "string option"
  m_nginxConfigPath :: "string option"
  m_environment :: "string option"
  m_webhookEnabled :: "bool option"

text \<open>
  \<open>Partial<ProjectMetadata>\<close>: each field may be left out (\<open>None\<close>); an optional
  field that is given may itself be \<open>undefined\<close>.
\<close>

record MetadataUpdates =
  u_name :: "string option"
  u_repoUrl :: "string option"
  u_branch :: "string option"
  u_type :: "string option"
  u_port :: "int option option"
  u_basePath :: "string option"
  u_createdAt :: "string option"
  u_updatedAt :: "string option"
  u_pm2ProcessName :: "string option option"
  u_nginxConfigPath :: "string option option"
  u_environment :: "string option option"
  u_webhookEnabled :: "bool option option"

definition noUpdates :: MetadataUpdates where
  "noUpdates = \<lparr> u_name = None, u_repoUrl = None, u_branch = None, u_type = None,
     u_port = None, u_basePath = None, u_createdAt = None, u_updatedAt = None,
     u_pm2ProcessName = None, u_nginxConfigPath = None, u_environment = None,
     u_webhookEnabled = None \<rparr>"

text \<open>
  \<open>APPS_DIR\<close> is \<open>process.env.APPS_DIR || '/var/apps'\<close>; the model fixes the default.
  The metadata files under \<open>APPS_DIR\<close>, one per project name
  (\<open>APPS_DIR/<name>/metadata.json\<close>): absent, unreadable as JSON, or holding a record.
  This is the only part of the file system the metadata functions write.
\<close>

datatype metadataFile = Unreadable | Stored ProjectMetadata

type_synonym store = "string \<Rightarrow> metadataFile option"

text \<open>\<open>saveMetadata\<close>: \<open>ensureDir\<close> and \<open>writeJSON\<close> either both succeed or throw.\<close>

definition getMetadataPath :: "string \<Rightarrow> string" where
  "getMetadataPath projectName = joinPath (joinPath ''/var/apps'' projectName) ''metadata.json''"

definition saveMetadata :: "host \<Rightarrow> store \<Rightarrow> ProjectMetadata \<Rightarrow> (error + unit) \<times> store" where
  "saveMetadata h st metadata =
     (if writeOk h (getMetadataPath (m_name metadata))
      then (Inr (), st(m_name metadata \<mapsto> Stored metadata))
      else (Inl (WriteFailed (getMetadataPath (m_name metadata))), st))"

definition loadMetadata :: "store \<Rightarrow> string \<Rightarrow> ProjectMetadata option" where
  "loadMetadata st projectName =
     (case st projectName of
        None \<Rightarrow> None
      | Some Unreadable \<Rightarrow> None
      | Some (Stored metadata) \<Rightarrow> Some metadata)"

text \<open>The object spread \<open>{ ...existing, ...updates, updatedAt: now }\<close>.\<close>

definition pick :: "'a \<Rightarrow> 'a option \<Rightarrow> 'a" where
  "pick old new = (case new of None \<Rightarrow> old | Some v \<Rightarrow> v)"

definition mergeMetadata :: "ProjectMetadata \<Rightarrow> MetadataUpdates \<Rightarrow> string \<Rightarrow> ProjectMetadata" where
  "mergeMetadata existing updates now =
     \<lparr> m_name = pick (m_name existing) (u_name updates),
       m_repoUrl = pick (m_repoUrl existing) (u_repoUrl updates),
       m_branch = pick (m_branch existing) (u_branch updates),
       m_type = pick (m_type existing) (u_type updates),
       m_port = pick (m_port existing) (u_port updates),
       m_basePath = pick (m_basePath existing) (u_basePath updates),
       m_createdAt = pick (m_createdAt existing) (u_createdAt updates),
       m_updatedAt = now,
       m_pm2ProcessName = pick (m_pm2ProcessName existing) (u_pm2ProcessName updates),
       m_nginxConfigPath = pick (m_nginxConfigPath existing) (u_nginxConfigPath updates),
       m_environment = pick (m_environment existing) (u_environment updates),
       m_webhookEnabled = pick (m_webhookEnabled existing) (u_webhookEnabled updates) \<rparr>"

definition updateMetadata ::
  "host \<Rightarrow> store \<Rightarrow> string \<Rightarrow> MetadataUpdates \<Rightarrow> string \<Rightarrow> (error + unit) \<times> store" where
  "updateMetadata h st projectName updates now =
     (case loadMetadata st projectName of
        None \<Rightarrow> (Inl (MetadataNotFound projectName), st)
      | Some existing \<Rightarrow> saveMetadata h st (mergeMetadata existing updates now))"

section \<open>Fetching the repository (src/github/cloneRepo.ts)\<close>

definition validateRepoUrl :: "host \<Rightarrow> string \<Rightarrow> bool" where
  "validateRepoUrl h url =
     (case parseURL h url of
        None \<Rightarrow> False
      | Some (protocol, hostname) \<Rightarrow>
          if toLowerCase hostname \<notin> set [''github.com'', ''www.github.com''] then False
          else if protocol \<notin> set [''https:'', ''http:''] \<and> \<not> startsWith url ''git@'' then False
          else True)"

definition getProjectPath :: "string \<Rightarrow> string" where
  "getProjectPath projectName = joinPath ''/var/apps'' (sanitizeProjectName projectName)"

text \<open>\<open>String.prototype.trim\<close> on the output of \<open>git branch --show-current\<close>.\<close>

definition isSpace :: "char \<Rightarrow> bool" where
  "isSpace c = (c = CHR '' '' \<or> c = CHR 0x0A \<or> c = CHR 0x0D \<or> c = CHR 0x09)"

definition trim :: "string \<Rightarrow> string" where
  "trim s = rev (dropWhile isSpace (rev (dropWhile isSpace s)))"

text \<open>
  The external commands a run has started, in order: the trace is what distinguishes a
  pipeline that installs, builds or reconfigures from one that does not.
\<close>

type_synonym command = "string \<times> string list"

definition updateRepo :: "host \<Rightarrow> string \<Rightarrow> string \<Rightarrow> (error + string) \<times> command list" where
  "updateRepo h projectPath branch =
     (case execa h ''git'' [''branch'', ''--show-current''] projectPath of
        None \<Rightarrow> (Inl GitPullFailed, [(''git'', [''branch'', ''--show-current''])])
      | Some out \<Rightarrow>
          (if trim out \<noteq> branch then
             (case execa h ''git'' [''checkout'', branch] projectPath of
                None \<Rightarrow>
                  (Inl GitPullFailed,
                   [(''git'', [''branch'', ''--show-current'']), (''git'', [''checkout'', branch])])
              | Some _ \<Rightarrow>
                  (case execa h ''git'' [''pull'', ''origin'', branch] projectPath of
                     None \<Rightarrow>
                       (Inl GitPullFailed,
                        [(''git'', [''branch'', ''--show-current'']), (''git'', [''checkout'', branch]),
                         (''git'', [''pull'', ''origin'', branch])])
                   | Some _ \<Rightarrow>
                       (Inr projectPath,
                        [(''git'', [''branch'', ''--show-current'']), (''git'', [''checkout'', branch]),
                         (''git'', [''pull'', ''origin'', branch])])))
           else
             (case execa h ''git'' [''pull'', ''origin'', branch] projectPath of
                None \<Rightarrow>
                  (Inl GitPullFailed,
                   [(''git'', [''branch'', ''--show-current'']), (''git'', [''pull'', ''origin'', branch])])
              | Some _ \<Rightarrow>
                  (Inr projectPath,
                   [(''git'', [''branch'', ''--show-current'']),
                    (''git'', [''pull'', ''origin'', branch])]))))"

record CloneOptions =
  co_repoUrl :: string
  co_branch :: string
  co_projectName :: string
  co_force :: bool

text \<open>
  \<open>cloneRepo\<close> with \<open>force\<close> unset updates a workspace that exists and clones otherwise;
  \<open>fs.ensureDir\<close> on the parent directory runs outside the \<open>try\<close>.
\<close>

definition cloneRepo :: "host \<Rightarrow> CloneOptions \<Rightarrow> (error + string) \<times> command list" where
  "cloneRepo h options =
     (if \<not> validateRepoUrl h (co_repoUrl options) then (Inl (InvalidRepoUrl (co_repoUrl options)), [])
      else if pathExists h (getProjectPath (co_projectName options)) \<and> \<not> co_force options
      then updateRepo h (getProjectPath (co_projectName options)) (co_branch options)
      else if \<not> writeOk h ''/var/apps'' then (Inl (WriteFailed ''/var/apps''), [])
      else
        (case execa h ''git''
                [''clone'', ''--branch'', co_branch options, ''--depth'', ''1'', co_repoUrl options,
                 getProjectPath (co_projectName options)] ''/var/apps'' of
           None \<Rightarrow>
             (Inl GitCloneFailed,
              [(''git'', [''clone'', ''--branch'', co_branch options, ''--depth'', ''1'',
                          co_repoUrl options, getProjectPath (co_projectName options)])])
         | Some _ \<Rightarrow>
             (Inr (getProjectPath (co_projectName options)),
              [(''git'', [''clone'', ''--branch'', co_branch options, ''--depth'', ''1'',
                          co_repoUrl options, getProjectPath (co_projectName options)])])))"

section \<open>The \<open>update\<close> command (src/index.ts, the version that keeps metadata)\<close>

text \<open>
  \<open>.option('--branch <branch>', 'Git branch to pull', 'main')\<close>: the parsed option is the
  argument when \<open>--branch\<close> is given and the declared default \<open>'main'\<close> otherwise. The
  command exits with status 1 from its \<open>catch\<close> and when the project is unknown.
\<close>

definition updateBranchOption :: "string option \<Rightarrow> string" where
  "updateBranchOption given = (case given of None \<Rightarrow> ''main'' | Some b \<Rightarrow> b)"

record UpdateOutcome =
  uo_exitCode :: nat
  uo_error :: "error option"
  uo_commands :: "command list"
  uo_store :: store

definition updateCommand ::
  "host \<Rightarrow> store \<Rightarrow> string \<Rightarrow> string option \<Rightarrow> string \<Rightarrow> UpdateOutcome" where
  "updateCommand h st name branchArg now =
     (case loadMetadata st name of
        None \<Rightarrow>
          \<lparr> uo_exitCode = 1, uo_error = Some (MetadataNotFound name), uo_commands = [], uo_store = st \<rparr>
      | Some metadata \<Rightarrow>
          (let optionsBranch = updateBranchOption branchArg;
               branch = (if optionsBranch \<noteq> [] then optionsBranch else m_branch metadata)
           in case cloneRepo h \<lparr> co_repoUrl = m_repoUrl metadata, co_branch = branch,
                                  co_projectName = name, co_force = False \<rparr> of
                (Inl e, cmds) \<Rightarrow>
                  \<lparr> uo_exitCode = 1, uo_error = Some e, uo_commands = cmds, uo_store = st \<rparr>
              | (Inr _, cmds) \<Rightarrow>
                  (if present (m_pm2ProcessName metadata) then
                     (case execa h ''pm2'' [''restart'', the (m_pm2ProcessName metadata)] [] of
                        None \<Rightarrow>
                          \<lparr> uo_exitCode = 1, uo_error = Some PM2RestartFailed,
                            uo_commands = cmds @ [(''pm2'', [''restart'', the (m_pm2ProcessName metadata)])],
                            uo_store = st \<rparr>
                      | Some _ \<Rightarrow>
                          (case updateMetadata h st name
                                  (noUpdates\<lparr> u_branch := Some branch, u_updatedAt := Some now \<rparr>) now of
                             (Inl e, st') \<Rightarrow>
                               \<lparr> uo_exitCode = 1, uo_error = Some e,
                                 uo_commands = cmds @ [(''pm2'', [''restart'', the (m_pm2ProcessName metadata)])],
                                 uo_store = st' \<rparr>
                           | (Inr _, st') \<Rightarrow>
                               \<lparr> uo_exitCode = 0, uo_error = None,
                                 uo_commands = cmds @ [(''pm2'', [''restart'', the (m_pm2ProcessName metadata)])],
                                 uo_store = st' \<rparr>))
                   else
                     (case updateMetadata h st name
                             (noUpdates\<lparr> u_branch := Some branch, u_updatedAt := Some now \<rparr>) now of
                        (Inl e, st') \<Rightarrow>
                          \<lparr> uo_exitCode = 1, uo_error = Some e, uo_commands = cmds, uo_store = st' \<rparr>
                      | (Inr _, st') \<Rightarrow>
                          \<lparr> uo_exitCode = 0, uo_error = None, uo_commands = cmds, uo_store = st' \<rparr>))))"

section \<open>Project analysis (src/analyzer/detectProjectType.ts)\<close>

datatype ProjectType = BACKEND | FRONTEND | MONOREPO | UNKNOWN

datatype PackageManager = NPM | YARN | PNPM

record ProjectAnalysis =
  a_type :: ProjectType
  a_packageManager :: PackageManager
  a_hasBuildScript :: bool
  a_hasStartScript :: bool
  a_buildCommand :: jsval
  a_startCommand :: jsval
  a_frontendPath :: "string option"
  a_backendPath :: "string option"
  a_isSSR :: bool
  a_staticOutputDir :: "string option"

text \<open>\<open>readPackageJson\<close>: \<open>null\<close> when there is no file, the parsed value otherwise;
  \<open>fs.readJson\<close> throws on a file that cannot be read or parsed.\<close>

definition readPackageJson :: "host \<Rightarrow> string \<Rightarrow> error + jsval" where
  "readPackageJson h projectPath =
     (if \<not> pathExists h (joinPath projectPath ''package.json'') then Inr JNull
      else (case readJson h (joinPath projectPath ''package.json'') of
              None \<Rightarrow> Inl (JsonReadFailed (joinPath projectPath ''package.json''))
            | Some v \<Rightarrow> Inr v))"

definition detectPackageManager :: "host \<Rightarrow> string \<Rightarrow> PackageManager" where
  "detectPackageManager h projectPath =
     (if pathExists h (joinPath projectPath ''pnpm-lock.yaml'') then PNPM
      else if pathExists h (joinPath projectPath ''yarn.lock'') then YARN
      else NPM)"

definition isMonorepo :: "host \<Rightarrow> jsval \<Rightarrow> string \<Rightarrow> bool" where
  "isMonorepo h packageJson projectPath =
     (if truthy (getProp packageJson ''workspaces'')
         \<or> truthy (getProp (getProp packageJson ''workspaces'') ''packages'') then True
      else if truthy (getProp (getProp packageJson ''dependencies'') ''turbo'')
         \<or> truthy (getProp (getProp packageJson ''devDependencies'') ''turbo'') then True
      else if truthy (getProp (getProp packageJson ''dependencies'') ''lerna'')
         \<or> truthy (getProp (getProp packageJson ''devDependencies'') ''lerna'') then True
      else if pathExists h (joinPath projectPath ''nx.json'') then True
      else False)"

text \<open>
  The spread \<open>{ ...pkg.dependencies, ...pkg.devDependencies }\<close> read at a key: the
  entry of \<open>devDependencies\<close> wins when both objects have the key. Spreading anything
  but an object adds no property with one of the names looked up here.
\<close>

fun ownProps :: "jsval \<Rightarrow> (string \<times> jsval) list" where
  "ownProps (JObj kvs) = kvs"
| "ownProps _ = []"

definition mergedDeps :: "jsval \<Rightarrow> string \<Rightarrow> jsval" where
  "mergedDeps pkg k =
     (case map_of (ownProps (getProp pkg ''devDependencies'')) k of
        Some v \<Rightarrow> v
      | None \<Rightarrow>
          (case map_of (ownProps (getProp pkg ''dependencies'')) k of
             Some v \<Rightarrow> v
           | None \<Rightarrow> JUndefined))"

definition declaresAny :: "jsval \<Rightarrow> string list \<Rightarrow> bool" where
  "declaresAny pkg fws = list_ex (\<lambda>fw. truthy (mergedDeps pkg fw)) fws"

definition commonFrontendPaths :: "string list" where
  "commonFrontendPaths =
     [''apps/frontend'', ''apps/web'', ''packages/frontend'', ''packages/web'', ''frontend'', ''web'']"

definition commonBackendPaths :: "string list" where
  "commonBackendPaths =
     [''apps/backend'', ''apps/api'', ''apps/server'', ''packages/backend'', ''packages/api'',
      ''packages/server'', ''backend'', ''api'', ''server'', ''customer'', ''products'',
      ''shopping'', ''orders'', ''payment'']"

text \<open>The two \<open>for ... break\<close> loops: the first conventional directory holding a manifest.\<close>

definition hasManifest :: "host \<Rightarrow> string \<Rightarrow> string \<Rightarrow> bool" where
  "hasManifest h projectPath dir =
     (pathExists h (joinPath projectPath dir)
      \<and> pathExists h (joinPath (joinPath projectPath dir) ''package.json''))"

definition firstWithManifest :: "host \<Rightarrow> string \<Rightarrow> string list \<Rightarrow> string option" where
  "firstWithManifest h projectPath dirs = find (hasManifest h projectPath) dirs"

text \<open>
  One round of the fallback scan over \<open>readdir(projectPath)\<close>. A manifest that cannot be
  read, or whose value is \<open>null\<close> (so that \<open>pkg.dependencies\<close> throws), is skipped by the
  inner \<open>catch\<close>.
\<close>

definition scanEntry ::
  "host \<Rightarrow> string \<Rightarrow> string option \<times> string option \<Rightarrow> string \<times> bool
   \<Rightarrow> string option \<times> string option" where
  "scanEntry h projectPath acc entry =
     (case (acc, entry) of
        ((frontendPath, backendPath), (entryName, isDirectory)) \<Rightarrow>
          if isDirectory \<and> \<not> startsWith entryName ''.'' \<and> entryName \<noteq> ''node_modules'' then
            (if pathExists h (joinPath (joinPath projectPath entryName) ''package.json'') then
               (case readJson h (joinPath (joinPath projectPath entryName) ''package.json'') of
                  None \<Rightarrow> (frontendPath, backendPath)
                | Some pkg \<Rightarrow>
                    if pkg = JNull \<or> pkg = JUndefined then (frontendPath, backendPath)
                    else
                      (let isFrontend =
                             declaresAny pkg [''react'', ''vue'', ''angular'', ''next'', ''nuxt'', ''svelte''];
                           isBackend =
                             declaresAny pkg [''express'', ''fastify'', ''koa'', ''nest'', ''@nestjs/core'']
                       in (if isFrontend \<and> \<not> present frontendPath then Some entryName
                           else frontendPath,
                           if isBackend \<and> \<not> present backendPath then Some entryName
                           else backendPath)))
             else (frontendPath, backendPath))
          else (frontendPath, backendPath))"

definition analyzeMonorepo :: "host \<Rightarrow> string \<Rightarrow> string option \<times> string option" where
  "analyzeMonorepo h projectPath =
     (let frontendPath = firstWithManifest h projectPath commonFrontendPaths;
          backendPath = firstWithManifest h projectPath commonBackendPaths
      in if \<not> present frontendPath \<and> \<not> present backendPath then
           (case readdir h projectPath of
              None \<Rightarrow> (frontendPath, backendPath)
            | Some entries \<Rightarrow> foldl (scanEntry h projectPath) (frontendPath, backendPath) entries)
         else (frontendPath, backendPath))"

definition detectFrontendType :: "jsval \<Rightarrow> bool \<times> string option" where
  "detectFrontendType packageJson =
     (if truthy (mergedDeps packageJson ''next'') then (True, Some ''.next'')
      else if truthy (mergedDeps packageJson ''nuxt'') \<or> truthy (mergedDeps packageJson ''nuxt3'')
        then (True, Some ''.output'')
      else if truthy (mergedDeps packageJson ''@remix-run/node'') then (True, None)
      else if truthy (mergedDeps packageJson ''vite'') then (False, Some ''dist'')
      else if truthy (mergedDeps packageJson ''react'')
              \<and> truthy (mergedDeps packageJson ''react-scripts'') then (False, Some ''build'')
      else (False, Some ''dist''))"

definition backendFrameworks :: "string list" where
  "backendFrameworks =
     [''express'', ''fastify'', ''koa'', ''nest'', ''@nestjs/core'', ''hapi'', ''restify'']"

definition frontendFrameworks :: "string list" where
  "frontendFrameworks = [''react'', ''vue'', ''angular'', ''svelte'', ''next'', ''nuxt'', ''remix'']"

text \<open>The analysis built from the root manifest's \<open>scripts\<close>, shared by four returns.\<close>

definition scriptAnalysis :: "jsval \<Rightarrow> ProjectType \<Rightarrow> PackageManager \<Rightarrow> ProjectAnalysis" where
  "scriptAnalysis packageJson t pm =
     \<lparr> a_type = t,
       a_packageManager = pm,
       a_hasBuildScript = truthy (getProp (getProp packageJson ''scripts'') ''build''),
       a_hasStartScript = truthy (getProp (getProp packageJson ''scripts'') ''start''),
       a_buildCommand = getProp (getProp packageJson ''scripts'') ''build'',
       a_startCommand = getProp (getProp packageJson ''scripts'') ''start'',
       a_frontendPath = None,
       a_backendPath = None,
       a_isSSR = False,
       a_staticOutputDir = None \<rparr>"

text \<open>The branch taken when the root has no manifest (\<open>!packageJson\<close>).\<close>

definition detectWithoutManifest :: "host \<Rightarrow> string \<Rightarrow> error + ProjectAnalysis" where
  "detectWithoutManifest h projectPath =
     (case analyzeMonorepo h projectPath of
        (frontendPath, backendPath) \<Rightarrow>
          if present frontendPath \<or> present backendPath then
            Inr \<lparr> a_type = MONOREPO,
                  a_packageManager =
                    (if present backendPath
                     then detectPackageManager h (joinPath projectPath (the backendPath))
                     else if present frontendPath
                     then detectPackageManager h (joinPath projectPath (the frontendPath))
                     else NPM),
                  a_hasBuildScript = False,
                  a_hasStartScript = False,
                  a_buildCommand = JUndefined,
                  a_startCommand = JUndefined,
                  a_frontendPath = frontendPath,
                  a_backendPath = backendPath,
                  a_isSSR = False,
                  a_staticOutputDir = None \<rparr>
          else Inl ManifestNotFound)"

text \<open>The branch taken for \<open>userSpecifiedType && userSpecifiedType !== UNKNOWN\<close>.\<close>

definition detectUserSpecified ::
  "host \<Rightarrow> string \<Rightarrow> jsval \<Rightarrow> PackageManager \<Rightarrow> ProjectType \<Rightarrow> ProjectAnalysis" where
  "detectUserSpecified h projectPath packageJson pm userSpecifiedType =
     (let analysis = scriptAnalysis packageJson userSpecifiedType pm;
          analysis1 =
            (if userSpecifiedType = MONOREPO
                \<or> (truthy packageJson \<and> isMonorepo h packageJson projectPath)
             then analysis\<lparr> a_frontendPath := fst (analyzeMonorepo h projectPath),
                            a_backendPath := snd (analyzeMonorepo h projectPath),
                            a_type := MONOREPO \<rparr>
             else analysis)
      in if userSpecifiedType = FRONTEND \<and> truthy packageJson
         then analysis1\<lparr> a_isSSR := fst (detectFrontendType packageJson),
                         a_staticOutputDir := snd (detectFrontendType packageJson) \<rparr>
         else analysis1)"

text \<open>Automatic detection from a root manifest.\<close>

definition detectAutomatic ::
  "host \<Rightarrow> string \<Rightarrow> jsval \<Rightarrow> PackageManager \<Rightarrow> ProjectAnalysis" where
  "detectAutomatic h projectPath packageJson pm =
     (if isMonorepo h packageJson projectPath then
        (scriptAnalysis packageJson MONOREPO pm)
          \<lparr> a_frontendPath := fst (analyzeMonorepo h projectPath),
            a_backendPath := snd (analyzeMonorepo h projectPath) \<rparr>
      else if declaresAny packageJson backendFrameworks then scriptAnalysis packageJson BACKEND pm
      else if declaresAny packageJson frontendFrameworks then
        (scriptAnalysis packageJson FRONTEND pm)
          \<lparr> a_isSSR := fst (detectFrontendType packageJson),
            a_staticOutputDir := snd (detectFrontendType packageJson) \<rparr>
      else scriptAnalysis packageJson UNKNOWN pm)"

definition detectProjectType ::
  "host \<Rightarrow> string \<Rightarrow> ProjectType option \<Rightarrow> error + ProjectAnalysis" where
  "detectProjectType h projectPath userSpecifiedType =
     (case readPackageJson h projectPath of
        Inl e \<Rightarrow> Inl e
      | Inr packageJson \<Rightarrow>
          if \<not> truthy packageJson then detectWithoutManifest h projectPath
          else
            (case userSpecifiedType of
               None \<Rightarrow>
                 Inr (detectAutomatic h projectPath packageJson (detectPackageManager h projectPath))
             | Some t \<Rightarrow>
                 if t \<noteq> UNKNOWN
                 then Inr (detectUserSpecified h projectPath packageJson
                             (detectPackageManager h projectPath) t)
                 else Inr (detectAutomatic h projectPath packageJson
                             (detectPackageManager h projectPath))))"


section \<open>Installing and building (src/installer/installDeps.ts, src/builder/buildProject.ts)\<close>

text \<open>\<open>path.basename\<close>: the text after the last separator.\<close>

definition basename :: "string \<Rightarrow> string" where
  "basename p = rev (takeWhile (\<lambda>c. c \<noteq> CHR ''/'') (rev p))"

definition getBuildLogPath :: "string \<Rightarrow> string" where
  "getBuildLogPath projectName =
     joinPath (joinPath ''/var/apps'' (sanitizeProjectName projectName)) ''build.log''"

definition getRuntimeLogPath :: "string \<Rightarrow> string" where
  "getRuntimeLogPath projectName =
     joinPath (joinPath ''/var/apps'' (sanitizeProjectName projectName)) ''runtime.log''"

definition getEnvFilePath :: "string \<Rightarrow> string" where
  "getEnvFilePath projectPath = joinPath projectPath ''.env''"

definition getNginxConfigPath :: "string \<Rightarrow> string" where
  "getNginxConfigPath projectName =
     joinPath ''/etc/nginx/conf.d'' (sanitizeProjectName projectName @ ''.conf'')"

definition workDirOf :: "string \<Rightarrow> string option \<Rightarrow> string" where
  "workDirOf projectPath subPath =
     (if present subPath then joinPath projectPath (the subPath) else projectPath)"

definition installCommand :: "host \<Rightarrow> PackageManager \<Rightarrow> string \<Rightarrow> command" where
  "installCommand h pm workDir =
     (case pm of
        PNPM \<Rightarrow>
          (''pnpm'', if pathExists h (joinPath workDir ''pnpm-lock.yaml'')
                     then [''install'', ''--frozen-lockfile''] else [''install''])
      | YARN \<Rightarrow>
          (''yarn'', if pathExists h (joinPath workDir ''yarn.lock'')
                     then [''install'', ''--frozen-lockfile''] else [''install''])
      | NPM \<Rightarrow> (''npm'', [''install'', ''--legacy-peer-deps'']))"

text \<open>
  \<open>fs.ensureFile\<close> on the build log runs before the \<open>try\<close>, so its failure propagates
  as it is; a rejected install command is rethrown as \<open>Dependency installation failed\<close>.
\<close>

definition installDependencies ::
  "host \<Rightarrow> string \<Rightarrow> PackageManager \<Rightarrow> string option \<Rightarrow> error + unit" where
  "installDependencies h projectPath pm subPath =
     (if \<not> writeOk h (getBuildLogPath (basename projectPath))
      then Inl (WriteFailed (getBuildLogPath (basename projectPath)))
      else
        (case execa h (fst (installCommand h pm (workDirOf projectPath subPath)))
                (snd (installCommand h pm (workDirOf projectPath subPath)))
                (workDirOf projectPath subPath) of
           None \<Rightarrow> Inl InstallFailed
         | Some _ \<Rightarrow> Inr ()))"

definition buildCommand :: "PackageManager \<Rightarrow> command" where
  "buildCommand pm =
     (case pm of
        PNPM \<Rightarrow> (''pnpm'', [''run'', ''build''])
      | YARN \<Rightarrow> (''yarn'', [''build''])
      | NPM \<Rightarrow> (''npm'', [''run'', ''build'']))"

definition buildProject ::
  "host \<Rightarrow> string \<Rightarrow> PackageManager \<Rightarrow> ProjectAnalysis \<Rightarrow> string option \<Rightarrow> error + unit" where
  "buildProject h projectPath pm analysis subPath =
     (if \<not> a_hasBuildScript analysis then Inr ()
      else if \<not> writeOk h (getBuildLogPath (basename projectPath))
      then Inl (WriteFailed (getBuildLogPath (basename projectPath)))
      else
        (case execa h (fst (buildCommand pm)) (snd (buildCommand pm))
                (workDirOf projectPath subPath) of
           None \<Rightarrow> Inl BuildFailed
         | Some _ \<Rightarrow> Inr ()))"

section \<open>The process supervisor (src/runner/runWithPM2.ts)\<close>

text \<open>A port used as a condition (\<open>if (port)\<close>): \<open>undefined\<close> and 0 are falsy.\<close>

definition portGiven :: "int option \<Rightarrow> bool" where
  "portGiven port = (case port of None \<Rightarrow> False | Some p \<Rightarrow> p \<noteq> 0)"

record RunOptions =
  ro_projectPath :: string
  ro_packageManager :: PackageManager
  ro_analysis :: ProjectAnalysis
  ro_projectName :: string
  ro_port :: "int option"
  ro_envVars :: "(string \<times> string) list option"
  ro_subPath :: "string option"

definition processNameOf :: "string \<Rightarrow> string option \<Rightarrow> string" where
  "processNameOf projectName subPath =
     projectName @ (if present subPath then ''-'' @ basename (the subPath) else [])"

text \<open>
  The text of the \<open>.env\<close> and \<open>ecosystem.config.js\<close> files is string templating and is
  not modelled; writing them can fail. \<open>pm2 delete\<close> of a previous process is allowed to
  fail; \<open>pm2 start\<close> and \<open>pm2 show\<close> are not.
\<close>

definition runWithPM2 :: "host \<Rightarrow> RunOptions \<Rightarrow> error + string" where
  "runWithPM2 h options =
     (let workDir = workDirOf (ro_projectPath options) (ro_subPath options);
          processName = processNameOf (ro_projectName options) (ro_subPath options)
      in if \<not> a_hasStartScript (ro_analysis options) then Inl StartScriptMissing
         else if (ro_envVars options \<noteq> None \<or> portGiven (ro_port options))
                 \<and> \<not> writeOk h (getEnvFilePath workDir)
         then Inl (WriteFailed (getEnvFilePath workDir))
         else if \<not> writeOk h (joinPath workDir ''ecosystem.config.js'')
         then Inl (WriteFailed (joinPath workDir ''ecosystem.config.js''))
         else
           (case execa h ''pm2'' [''start'', joinPath workDir ''ecosystem.config.js''] [] of
              None \<Rightarrow> Inl PM2StartFailed
            | Some _ \<Rightarrow>
                (case execa h ''pm2'' [''show'', processName] [] of
                   None \<Rightarrow> Inl PM2StartFailed
                 | Some _ \<Rightarrow> Inr processName)))"

section \<open>Reverse-proxy configuration (the two versions of nginx/generateConfig.ts)\<close>

record NginxConfigOptions =
  no_projectName :: string
  no_projectPath :: string
  no_projectType :: ProjectType
  no_analysis :: ProjectAnalysis
  no_port :: "int option"
  no_basePath :: "string option"
  no_domain :: "string option"

text \<open>The three routing shapes; the text rendered from them is not modelled.\<close>

datatype NginxConfig =
    StaticConfig string string string
  | ProxyConfig string int string
  | MonorepoConfig string int "string option" string string

definition chooseConfig :: "NginxConfigOptions \<Rightarrow> error + NginxConfig" where
  "chooseConfig options =
     (let serverName =
            orElse (no_domain options) (sanitizeProjectName (no_projectName options) @ ''.local'');
          analysis = no_analysis options
      in if no_projectType options = FRONTEND \<and> \<not> a_isSSR analysis then
           Inr (StaticConfig serverName
                  (joinPath (joinPath (no_projectPath options) (orElse (a_frontendPath analysis) []))
                     (orElse (a_staticOutputDir analysis) ''dist''))
                  (orElse (no_basePath options) ''/''))
         else if no_projectType options = BACKEND \<or> a_isSSR analysis then
           (if \<not> portGiven (no_port options) then Inl BackendPortRequired
            else Inr (ProxyConfig serverName (the (no_port options))
                        (orElse (no_basePath options) ''/'')))
         else if no_projectType options = MONOREPO then
           (if \<not> portGiven (no_port options) then Inl MonorepoPortRequired
            else Inr (MonorepoConfig serverName (the (no_port options))
                        (if present (a_frontendPath analysis)
                         then Some (joinPath (joinPath (no_projectPath options)
                                                (the (a_frontendPath analysis)))
                                      (orElse (a_staticOutputDir analysis) ''dist''))
                         else None)
                        (orElse (no_basePath options) ''/api'') ''/''))
         else Inl UnsupportedProjectType)"

text \<open>
  A stage of the proxy set-up returns its result together with the warnings it logged
  (\<open>logger.warn\<close>), which is all that remains of a failure the stage swallows.
\<close>

datatype warning = NginxSyntaxCheckFailed | NginxReloadFailed

text \<open>
  The version in src/nginx/generateConfig.ts: the file is written in place, then
  \<open>nginx -t\<close> runs, and its failure is rethrown as \<open>Nginx config invalid\<close>.
\<close>

definition generateNginxConfig_direct ::
  "host \<Rightarrow> NginxConfigOptions \<Rightarrow> (error + string) \<times> warning list" where
  "generateNginxConfig_direct h options =
     (case chooseConfig options of
        Inl e \<Rightarrow> (Inl e, [])
      | Inr configContent \<Rightarrow>
          if \<not> writeOk h (getNginxConfigPath (no_projectName options))
          then (Inl (WriteFailed (getNginxConfigPath (no_projectName options))), [])
          else
            (case execa h ''nginx'' [''-t''] [] of
               None \<Rightarrow> (Inl NginxConfigInvalid, [])
             | Some _ \<Rightarrow> (Inr (getNginxConfigPath (no_projectName options)), [])))"

definition reloadNginx_direct :: "host \<Rightarrow> warning list" where
  "reloadNginx_direct h =
     (case execa h ''sudo'' [''nginx'', ''-s'', ''reload''] [] of
        Some _ \<Rightarrow> []
      | None \<Rightarrow>
          (case execa h ''nginx'' [''-s'', ''reload''] [] of
             Some _ \<Rightarrow> []
           | None \<Rightarrow> [NginxReloadFailed]))"

text \<open>
  The version that installs the file with \<open>sudo cp\<close>: \<open>which nginx\<close>, or the first of
  three usual locations, gives the binary; a failed \<open>sudo nginx -t\<close> is logged as a
  warning and the path is returned all the same.
\<close>

definition findNginx :: "host \<Rightarrow> string" where
  "findNginx h =
     (case execa h ''which'' [''nginx''] [] of
        Some out \<Rightarrow> (if trim out \<noteq> [] then trim out else ''nginx'')
      | None \<Rightarrow>
          (case find (\<lambda>p. execa h ''test'' [''-f'', p] [] \<noteq> None)
                  [''/usr/sbin/nginx'', ''/usr/bin/nginx'', ''/sbin/nginx''] of
             Some p \<Rightarrow> p
           | None \<Rightarrow> ''nginx''))"

definition tempConfigPath :: "string \<Rightarrow> string" where
  "tempConfigPath projectName =
     joinPath ''/tmp'' (sanitizeProjectName projectName @ ''.nginx.conf'')"

definition generateNginxConfig_sudo ::
  "host \<Rightarrow> NginxConfigOptions \<Rightarrow> (error + string) \<times> warning list" where
  "generateNginxConfig_sudo h options =
     (case chooseConfig options of
        Inl e \<Rightarrow> (Inl e, [])
      | Inr configContent \<Rightarrow>
          if \<not> writeOk h (tempConfigPath (no_projectName options))
          then (Inl (WriteFailed (tempConfigPath (no_projectName options))), [])
          else
            (case execa h ''sudo''
                    [''cp'', tempConfigPath (no_projectName options),
                     getNginxConfigPath (no_projectName options)] [] of
               None \<Rightarrow> (Inl NginxWriteFailed, [])
             | Some _ \<Rightarrow>
                 (case execa h ''sudo'' [findNginx h, ''-t''] [] of
                    None \<Rightarrow>
                      (Inr (getNginxConfigPath (no_projectName options)), [NginxSyntaxCheckFailed])
                  | Some _ \<Rightarrow> (Inr (getNginxConfigPath (no_projectName options)), []))))"

definition reloadNginx_sudo :: "host \<Rightarrow> warning list" where
  "reloadNginx_sudo h =
     (case execa h ''sudo'' [findNginx h, ''-s'', ''reload''] [] of
        Some _ \<Rightarrow> []
      | None \<Rightarrow>
          (case execa h (findNginx h) [''-s'', ''reload''] [] of
             Some _ \<Rightarrow> []
           | None \<Rightarrow> [NginxReloadFailed]))"

text \<open>\<open>deploy\<close> imports both functions from one module; the repository holds two.\<close>

datatype NginxModule = DirectWrite | SudoCopy

definition generateNginxConfig ::
  "NginxModule \<Rightarrow> host \<Rightarrow> NginxConfigOptions \<Rightarrow> (error + string) \<times> warning list" where
  "generateNginxConfig m h options =
     (case m of
        DirectWrite \<Rightarrow> generateNginxConfig_direct h options
      | SudoCopy \<Rightarrow> generateNginxConfig_sudo h options)"

definition reloadNginx :: "NginxModule \<Rightarrow> host \<Rightarrow> warning list" where
  "reloadNginx m h = (case m of DirectWrite \<Rightarrow> reloadNginx_direct h | SudoCopy \<Rightarrow> reloadNginx_sudo h)"

section \<open>The deploy pipeline (\<open>deploy\<close> in src/index.ts, the version that keeps metadata)\<close>

record DeployConfig =
  c_repoUrl :: string
  c_branch :: string
  c_projectType :: ProjectType
  c_port :: "int option"
  c_envVars :: "(string \<times> string) list option"
  c_projectName :: string
  c_basePath :: "string option"
  c_environment :: "string option"
  c_webhookEnabled :: "bool option"

record DeployResult =
  r_success :: bool
  r_projectPath :: string
  r_port :: "int option"
  r_nginxConfigPath :: "string option"
  r_pm2ProcessName :: "string option"
  r_error :: "error option"
  r_buildLog :: "string option"
  r_runtimeLog :: "string option"

definition typeName :: "ProjectType \<Rightarrow> string" where
  "typeName t =
     (case t of BACKEND \<Rightarrow> ''backend'' | FRONTEND \<Rightarrow> ''frontend''
      | MONOREPO \<Rightarrow> ''monorepo'' | UNKNOWN \<Rightarrow> ''unknown'')"

text \<open>The port the pipeline uses: \<open>findAvailablePort(finalPort)\<close> with the default of
  ten attempts when a port was given, the given value otherwise.\<close>

definition resolvePort :: "host \<Rightarrow> int option \<Rightarrow> int option" where
  "resolvePort h port =
     (if portGiven port then Some (findAvailablePort h (the port) 10) else port)"

text \<open>Step 2: analysis, and the \<open>throw\<close> on an unknown type.\<close>

definition analyzeStage :: "host \<Rightarrow> DeployConfig \<Rightarrow> string \<Rightarrow> error + ProjectAnalysis" where
  "analyzeStage h config projectPath =
     (case detectProjectType h projectPath (Some (c_projectType config)) of
        Inl e \<Rightarrow> Inl e
      | Inr analysis \<Rightarrow>
          if a_type analysis = UNKNOWN then Inl UnknownProjectType else Inr analysis)"

text \<open>Step 3: dependencies, per sub-package for a monorepo.\<close>

definition installStage :: "host \<Rightarrow> string \<Rightarrow> ProjectAnalysis \<Rightarrow> error + unit" where
  "installStage h projectPath analysis =
     (if a_type analysis = MONOREPO then
        (case (if present (a_frontendPath analysis)
               then installDependencies h projectPath (a_packageManager analysis)
                      (a_frontendPath analysis)
               else Inr ()) of
           Inl e \<Rightarrow> Inl e
         | Inr _ \<Rightarrow>
             (if present (a_backendPath analysis)
              then installDependencies h projectPath (a_packageManager analysis)
                     (a_backendPath analysis)
              else Inr ()))
      else installDependencies h projectPath (a_packageManager analysis) None)"

text \<open>Step 4: build; each sub-package of a monorepo is analysed again with its type given.\<close>

definition buildSubPackage ::
  "host \<Rightarrow> string \<Rightarrow> ProjectAnalysis \<Rightarrow> string option \<Rightarrow> ProjectType \<Rightarrow> error + unit" where
  "buildSubPackage h projectPath analysis subPath t =
     (if present subPath then
        (case detectProjectType h (joinPath projectPath (the subPath)) (Some t) of
           Inl e \<Rightarrow> Inl e
         | Inr subAnalysis \<Rightarrow>
             buildProject h projectPath (a_packageManager analysis) subAnalysis subPath)
      else Inr ())"

definition buildStage :: "host \<Rightarrow> string \<Rightarrow> ProjectAnalysis \<Rightarrow> error + unit" where
  "buildStage h projectPath analysis =
     (if a_type analysis = MONOREPO then
        (case buildSubPackage h projectPath analysis (a_frontendPath analysis) FRONTEND of
           Inl e \<Rightarrow> Inl e
         | Inr _ \<Rightarrow> buildSubPackage h projectPath analysis (a_backendPath analysis) BACKEND)
      else buildProject h projectPath (a_packageManager analysis) analysis None)"

text \<open>Step 5: the supervisor entry; a static frontend has none.\<close>

definition runStage ::
  "host \<Rightarrow> DeployConfig \<Rightarrow> string \<Rightarrow> ProjectAnalysis \<Rightarrow> int option \<Rightarrow> error + string option" where
  "runStage h config projectPath analysis finalPort =
     (if a_type analysis = FRONTEND \<and> \<not> a_isSSR analysis then Inr None
      else if a_type analysis = MONOREPO \<and> present (a_backendPath analysis) then
        (case detectProjectType h (joinPath projectPath (the (a_backendPath analysis)))
                (Some BACKEND) of
           Inl e \<Rightarrow> Inl e
         | Inr backendAnalysis \<Rightarrow>
             (case runWithPM2 h
                     \<lparr> ro_projectPath = projectPath,
                       ro_packageManager = a_packageManager analysis,
                       ro_analysis = backendAnalysis,
                       ro_projectName = c_projectName config,
                       ro_port = finalPort,
                       ro_envVars = c_envVars config,
                       ro_subPath = a_backendPath analysis \<rparr> of
                Inl e \<Rightarrow> Inl e
              | Inr processName \<Rightarrow> Inr (Some processName)))
      else
        (case runWithPM2 h
                \<lparr> ro_projectPath = projectPath,
                  ro_packageManager = a_packageManager analysis,
                  ro_analysis = analysis,
                  ro_projectName = c_projectName config,
                  ro_port = finalPort,
                  ro_envVars = c_envVars config,
                  ro_subPath = None \<rparr> of
           Inl e \<Rightarrow> Inl e
         | Inr processName \<Rightarrow> Inr (Some processName)))"

definition nginxOptions ::
  "DeployConfig \<Rightarrow> string \<Rightarrow> ProjectAnalysis \<Rightarrow> int option \<Rightarrow> NginxConfigOptions" where
  "nginxOptions config projectPath analysis finalPort =
     \<lparr> no_projectName = c_projectName config,
       no_projectPath = projectPath,
       no_projectType = a_type analysis,
       no_analysis = analysis,
       no_port = finalPort,
       no_basePath = c_basePath config,
       no_domain = None \<rparr>"

text \<open>Step 8: the record written at the end.\<close>

definition deployRecord ::
  "DeployConfig \<Rightarrow> ProjectAnalysis \<Rightarrow> int option \<Rightarrow> string option \<Rightarrow> string \<Rightarrow> string
   \<Rightarrow> ProjectMetadata" where
  "deployRecord config analysis finalPort pm2ProcessName nginxConfigPath now =
     \<lparr> m_name = c_projectName config,
       m_repoUrl = c_repoUrl config,
       m_branch = c_branch config,
       m_type = typeName (a_type analysis),
       m_port = finalPort,
       m_basePath = orElse (c_basePath config) ''/'',
       m_createdAt = now,
       m_updatedAt = now,
       m_pm2ProcessName = pm2ProcessName,
       m_nginxConfigPath = Some nginxConfigPath,
       m_environment = Some (orElse (c_environment config) ''production''),
       m_webhookEnabled = Some (case c_webhookEnabled config of None \<Rightarrow> False | Some b \<Rightarrow> b) \<rparr>"

text \<open>The value returned from the \<open>catch\<close> block.\<close>

definition failed :: "DeployConfig \<Rightarrow> string \<Rightarrow> error \<Rightarrow> DeployResult" where
  "failed config projectPath e =
     \<lparr> r_success = False,
       r_projectPath = projectPath,
       r_port = None,
       r_nginxConfigPath = None,
       r_pm2ProcessName = None,
       r_error = Some e,
       r_buildLog = (if projectPath \<noteq> [] then Some (getBuildLogPath (c_projectName config)) else None),
       r_runtimeLog =
         (if projectPath \<noteq> [] then Some (getRuntimeLogPath (c_projectName config)) else None) \<rparr>"

definition succeeded ::
  "DeployConfig \<Rightarrow> string \<Rightarrow> int option \<Rightarrow> string \<Rightarrow> string option \<Rightarrow> DeployResult" where
  "succeeded config projectPath finalPort nginxConfigPath pm2ProcessName =
     \<lparr> r_success = True,
       r_projectPath = projectPath,
       r_port = finalPort,
       r_nginxConfigPath = Some nginxConfigPath,
       r_pm2ProcessName = pm2ProcessName,
       r_error = None,
       r_buildLog = Some (getBuildLogPath (c_projectName config)),
       r_runtimeLog = Some (getRuntimeLogPath (c_projectName config)) \<rparr>"

text \<open>
  \<open>deploy\<close>: the stages in order inside one \<open>try\<close>; the first \<open>Inl\<close> is the exception
  that reaches the \<open>catch\<close>. Step 7, \<open>reloadNginx\<close>, returns nothing and never throws. The
  result comes with the metadata store and the warnings logged by the proxy stages.
\<close>

definition deploy ::
  "NginxModule \<Rightarrow> host \<Rightarrow> store \<Rightarrow> DeployConfig \<Rightarrow> string
   \<Rightarrow> DeployResult \<times> store \<times> warning list" where
  "deploy m h st config now =
     (let finalPort = resolvePort h (c_port config)
      in case fst (cloneRepo h \<lparr> co_repoUrl = c_repoUrl config, co_branch = c_branch config,
                     co_projectName = c_projectName config, co_force = False \<rparr>) of
           Inl e \<Rightarrow> (failed config [] e, st, [])
         | Inr projectPath \<Rightarrow>
        (case analyzeStage h config projectPath of
           Inl e \<Rightarrow> (failed config projectPath e, st, [])
         | Inr analysis \<Rightarrow>
        (case installStage h projectPath analysis of
           Inl e \<Rightarrow> (failed config projectPath e, st, [])
         | Inr _ \<Rightarrow>
        (case buildStage h projectPath analysis of
           Inl e \<Rightarrow> (failed config projectPath e, st, [])
         | Inr _ \<Rightarrow>
        (case runStage h config projectPath analysis finalPort of
           Inl e \<Rightarrow> (failed config projectPath e, st, [])
         | Inr pm2ProcessName \<Rightarrow>
        (case generateNginxConfig m h (nginxOptions config projectPath analysis finalPort) of
           (Inl e, ws) \<Rightarrow> (failed config projectPath e, st, ws)
         | (Inr nginxConfigPath, ws) \<Rightarrow>
        (let reloadWarnings = reloadNginx m h
         in case saveMetadata h st
                   (deployRecord config analysis finalPort pm2ProcessName nginxConfigPath now) of
              (Inl e, st') \<Rightarrow> (failed config projectPath e, st', ws @ reloadWarnings)
            | (Inr _, st') \<Rightarrow>
                (succeeded config projectPath finalPort nginxConfigPath pm2ProcessName, st',
                 ws @ reloadWarnings))))))))"

section \<open>The webhook listener (src/webhook/webhookServer.ts)\<close>

text \<open>
  A header value reaches the handler as a string of code units below 256 (Node decodes
  header bytes as Latin-1). \<open>Buffer.from(s)\<close> encodes it as UTF-8: one byte for a code
  unit below 128 and two bytes for the others.
\<close>

definition utf8Char :: "char \<Rightarrow> string" where
  "utf8Char c =
     (if (of_char c :: nat) < 128 then [c]
      else [char_of (192 + (of_char c :: nat) div 64), char_of (128 + (of_char c :: nat) mod 64)])"

definition bufferFrom :: "string \<Rightarrow> string" where
  "bufferFrom s = concat (map utf8Char s)"

text \<open>\<open>crypto.timingSafeEqual\<close> throws a \<open>RangeError\<close> on inputs of different byte length.\<close>

definition timingSafeEqual :: "string \<Rightarrow> string \<Rightarrow> error + bool" where
  "timingSafeEqual a b = (if length a \<noteq> length b then Inl RangeError else Inr (a = b))"

text \<open>\<open>.digest('hex')\<close>: two lowercase hexadecimal digits per byte.\<close>

definition hexByte :: "char \<Rightarrow> string" where
  "hexByte c =
     [''0123456789abcdef'' ! ((of_char c :: nat) div 16),
      ''0123456789abcdef'' ! ((of_char c :: nat) mod 16)]"

definition hexDigest :: "string \<Rightarrow> string" where
  "hexDigest bytes = concat (map hexByte bytes)"

text \<open>
  HMAC-SHA256 itself is the library's: \<open>hmac secret body\<close> stands for the raw bytes of
  \<open>crypto.createHmac('sha256', secret).update(body).digest()\<close> and is a parameter of
  everything below.
\<close>

definition expectedSignature :: "(string \<Rightarrow> string \<Rightarrow> string) \<Rightarrow> string \<Rightarrow> string \<Rightarrow> string" where
  "expectedSignature hmac body secret = ''sha256='' @ hexDigest (hmac secret body)"

definition verifySignature ::
  "(string \<Rightarrow> string \<Rightarrow> string) \<Rightarrow> string \<Rightarrow> string \<Rightarrow> string \<Rightarrow> error + bool" where
  "verifySignature hmac body signature secret =
     timingSafeEqual (bufferFrom signature) (bufferFrom (expectedSignature hmac body secret))"

record WebhookConfig =
  wc_secret :: "string option"
  wc_path :: string

record Request =
  rq_method :: string
  rq_url :: string
  rq_signature :: "string option"
  rq_event :: "string option"
  rq_body :: string

record Response =
  rs_status :: nat
  rs_body :: string

text \<open>\<open>s.replace(pattern, replacement)\<close> with a string pattern: the first occurrence only.\<close>

fun replaceFirst :: "string \<Rightarrow> string \<Rightarrow> string \<Rightarrow> string" where
  "replaceFirst pat rep [] = (if pat = [] then rep else [])"
| "replaceFirst pat rep (c # cs) =
     (if startsWith (c # cs) pat then rep @ drop (length pat) (c # cs)
      else c # replaceFirst pat rep cs)"

text \<open>The predicate of \<open>projects.find\<close>.\<close>

definition matchesRepo :: "string \<Rightarrow> ProjectMetadata \<Rightarrow> bool" where
  "matchesRepo repoUrl p =
     (m_repoUrl p = repoUrl
      \<or> m_repoUrl p = replaceFirst ''.git'' [] repoUrl
      \<or> replaceFirst ''.git'' [] (m_repoUrl p) = repoUrl)"

text \<open>
  The handler after the signature check. \<open>parse\<close> is \<open>JSON.parse\<close> (\<open>None\<close> when it
  throws) and \<open>projects\<close> the result of \<open>listAllProjects()\<close>. Every exception inside the
  handler's \<open>try\<close> ends in the 500 response of its \<open>catch\<close>; the second component is the
  update command the handler has started, if any.
\<close>

definition internalError :: "Response \<times> command list" where
  "internalError = (\<lparr> rs_status = 500, rs_body = ''{success:false}'' \<rparr>, [])"

definition updateArgs :: "string \<Rightarrow> string \<Rightarrow> string list" where
  "updateArgs name branch = [''dist/index.js'', ''update'', ''--name'', name, ''--branch'', branch]"

definition processPush ::
  "(string \<Rightarrow> jsval option) \<Rightarrow> host \<Rightarrow> ProjectMetadata list \<Rightarrow> Request
   \<Rightarrow> Response \<times> command list" where
  "processPush parse h projects req =
     (if rq_event req \<noteq> Some ''push'' then (\<lparr> rs_status = 200, rs_body = ''Event ignored'' \<rparr>, [])
      else
        (case parse (rq_body req) of
           None \<Rightarrow> internalError
         | Some payload \<Rightarrow>
             if payload = JNull then internalError
             else
               (let cloneUrl = getProp (getProp payload ''repository'') ''clone_url'';
                    htmlUrl = getProp (getProp payload ''repository'') ''html_url'';
                    repoUrl = (if truthy cloneUrl then cloneUrl else htmlUrl);
                    ref = (if truthy (getProp payload ''ref'') then getProp payload ''ref''
                           else JStr ''refs/heads/main'')
                in if \<not> truthy repoUrl then (\<lparr> rs_status = 400, rs_body = ''Invalid payload'' \<rparr>, [])
                   else
                     (case ref of
                        JStr refText \<Rightarrow>
                          (case repoUrl of
                             JStr url \<Rightarrow>
                               (case find (matchesRepo url) projects of
                                  None \<Rightarrow> (\<lparr> rs_status = 404, rs_body = ''Project not found'' \<rparr>, [])
                                | Some project \<Rightarrow>
                                    if m_branch project = replaceFirst ''refs/heads/'' [] refText then
                                      (case execa h ''node''
                                              (updateArgs (m_name project)
                                                 (replaceFirst ''refs/heads/'' [] refText)) [] of
                                         Some _ \<Rightarrow>
                                           (\<lparr> rs_status = 200, rs_body = ''Project updated'' \<rparr>,
                                            [(''node'', updateArgs (m_name project)
                                                (replaceFirst ''refs/heads/'' [] refText))])
                                       | None \<Rightarrow>
                                           (\<lparr> rs_status = 500, rs_body = ''{success:false}'' \<rparr>,
                                            [(''node'', updateArgs (m_name project)
                                                (replaceFirst ''refs/heads/'' [] refText))]))
                                    else (\<lparr> rs_status = 200, rs_body = ''Branch mismatch, ignored'' \<rparr>, []))
                           | _ \<Rightarrow>
                               if projects = []
                               then (\<lparr> rs_status = 404, rs_body = ''Project not found'' \<rparr>, [])
                               else internalError)
                      | _ \<Rightarrow> internalError))))"

definition handleRequest ::
  "(string \<Rightarrow> string \<Rightarrow> string) \<Rightarrow> (string \<Rightarrow> jsval option) \<Rightarrow> host \<Rightarrow> WebhookConfig
   \<Rightarrow> ProjectMetadata list \<Rightarrow> Request \<Rightarrow> Response \<times> command list" where
  "handleRequest hmac parse h config projects req =
     (if rq_method req = ''OPTIONS'' then (\<lparr> rs_status = 200, rs_body = [] \<rparr>, [])
      else if rq_method req \<noteq> ''POST'' \<or> rq_url req \<noteq> wc_path config
      then (\<lparr> rs_status = 404, rs_body = ''Not Found'' \<rparr>, [])
      else if present (wc_secret config) then
        (if \<not> present (rq_signature req) then (\<lparr> rs_status = 401, rs_body = ''Unauthorized'' \<rparr>, [])
         else
           (case verifySignature hmac (rq_body req) (the (rq_signature req))
                   (the (wc_secret config)) of
              Inl e \<Rightarrow> internalError
            | Inr ok \<Rightarrow>
                if \<not> ok then (\<lparr> rs_status = 401, rs_body = ''Unauthorized'' \<rparr>, [])
                else processPush parse h projects req))
      else processPush parse h projects req)"

text \<open>A code unit that \<open>Buffer.from\<close> encodes as a single byte.\<close>

definition isAscii :: "char \<Rightarrow> bool" where
  "isAscii c = ((of_char c :: nat) < 128)"

text \<open>
  What makes the fallback scan of \<open>analyzeMonorepo\<close> take a directory entry as a
  sub-package: a visible directory other than \<open>node_modules\<close> whose manifest can be read
  and declares one of the scan's frontend or backend frameworks.
\<close>

definition scanAccepts :: "host \<Rightarrow> string \<Rightarrow> string \<times> bool \<Rightarrow> bool" where
  "scanAccepts h projectPath entry =
     (snd entry \<and> fst entry \<noteq> [] \<and> \<not> startsWith (fst entry) ''.'' \<and> fst entry \<noteq> ''node_modules''
      \<and> pathExists h (joinPath (joinPath projectPath (fst entry)) ''package.json'')
      \<and> (case readJson h (joinPath (joinPath projectPath (fst entry)) ''package.json'') of
            None \<Rightarrow> False
          | Some pkg \<Rightarrow>
              pkg \<noteq> JNull \<and> pkg \<noteq> JUndefined
              \<and> (declaresAny pkg [''react'', ''vue'', ''angular'', ''next'', ''nuxt'', ''svelte'']
                  \<or> declaresAny pkg [''express'', ''fastify'', ''koa'', ''nest'', ''@nestjs/core''])))"

definition scanFindsNothing :: "host \<Rightarrow> string \<Rightarrow> bool" where
  "scanFindsNothing h projectPath =
     (case readdir h projectPath of
        None \<Rightarrow> True
      | Some entries \<Rightarrow> list_all (\<lambda>entry. \<not> scanAccepts h projectPath entry) entries)"

definition noConventionalManifest :: "host \<Rightarrow> string \<Rightarrow> bool" where
  "noConventionalManifest h projectPath =
     list_all (\<lambda>dir. \<not> hasManifest h projectPath dir) (commonFrontendPaths @ commonBackendPaths)"

text \<open>The root has no manifest the analyzer can use: no file, or a falsy JSON value.\<close>

definition rootManifestMissing :: "host \<Rightarrow> string \<Rightarrow> bool" where
  "rootManifestMissing h projectPath =
     (case readPackageJson h projectPath of Inl e \<Rightarrow> False | Inr packageJson \<Rightarrow> \<not> truthy packageJson)"

text \<open>The stages of \<open>deploy\<close> that come before the proxy configuration have all returned.\<close>

definition earlierStagesSucceed ::
  "host \<Rightarrow> DeployConfig \<Rightarrow> string \<Rightarrow> ProjectAnalysis \<Rightarrow> string option \<Rightarrow> bool" where
  "earlierStagesSucceed h config projectPath analysis pm2ProcessName =
     (fst (cloneRepo h \<lparr> co_repoUrl = c_repoUrl config, co_branch = c_branch config,
             co_projectName = c_projectName config, co_force = False \<rparr>) = Inr projectPath
      \<and> analyzeStage h config projectPath = Inr analysis
      \<and> installStage h projectPath analysis = Inr ()
      \<and> buildStage h projectPath analysis = Inr ()
      \<and> runStage h config projectPath analysis (resolvePort h (c_port config)) = Inr pm2ProcessName)"
section \<open>Hosts used to evaluate the functions\<close>

text \<open>A host on which no command runs and no file exists, refined below by record update.\<close>

definition bareHost :: host where
  "bareHost =
     \<lparr> execa = (\<lambda>cmd args cwd. None),
       pathExists = (\<lambda>p. False),
       readJson = (\<lambda>p. None),
       readdir = (\<lambda>p. None),
       writeOk = (\<lambda>p. True),
       parseURL = (\<lambda>url. None) \<rparr>"

text \<open>\<open>ss -tuln\<close> reports one listener, on port 3000.\<close>

definition ssListing :: string where
  "ssListing = ''tcp LISTEN 0 511 0.0.0.0:3000 0.0.0.0:*'' @ [CHR 0x0A]"

definition hostListening3000 :: host where
  "hostListening3000 =
     bareHost\<lparr> execa := (\<lambda>cmd args cwd.
                 if cmd = ''ss'' \<and> args = [''-tuln''] then Some ssListing else None) \<rparr>"

text \<open>Neither \<open>ss\<close> nor \<open>netstat\<close> is installed and \<open>lsof -i\<close> succeeds for every port.\<close>

definition hostAllPortsBusy :: host where
  "hostAllPortsBusy =
     bareHost\<lparr> execa := (\<lambda>cmd args cwd. if cmd = ''lsof'' then Some [] else None) \<rparr>"

text \<open>An empty metadata store, and a store holding one project deployed from branch
  \<open>develop\<close> and supervised as \<open>shop\<close>.\<close>

definition noProjects :: store where
  "noProjects = (\<lambda>name. None)"

definition shopRecord :: ProjectMetadata where
  "shopRecord =
     \<lparr> m_name = ''shop'',
       m_repoUrl = ''https://github.com/acme/shop.git'',
       m_branch = ''develop'',
       m_type = ''backend'',
       m_port = Some 3000,
       m_basePath = ''/'',
       m_createdAt = ''2026-01-01T00:00:00.000Z'',
       m_updatedAt = ''2026-01-01T00:00:00.000Z'',
       m_pm2ProcessName = Some ''shop'',
       m_nginxConfigPath = Some ''/etc/nginx/conf.d/shop.conf'',
       m_environment = Some ''production'',
       m_webhookEnabled = Some False \<rparr>"

definition shopStore :: store where
  "shopStore = (\<lambda>name. if name = ''shop'' then Some (Stored shopRecord) else None)"

text \<open>The host of that project: its workspace exists with \<open>develop\<close> checked out, and
  every \<open>git\<close> and \<open>pm2\<close> command succeeds.\<close>

definition hostShop :: host where
  "hostShop =
     bareHost
       \<lparr> execa := (\<lambda>cmd args cwd.
            if cmd = ''git'' \<and> args = [''branch'', ''--show-current''] then Some (''develop'' @ [CHR 0x0A])
            else if cmd = ''git'' \<or> cmd = ''pm2'' then Some []
            else None),
         pathExists := (\<lambda>p. p = ''/var/apps/shop''),
         parseURL := (\<lambda>url. if url = ''https://github.com/acme/shop.git''
                             then Some (''https:'', ''github.com'') else None) \<rparr>"

text \<open>
  A stand-in for HMAC-SHA256 with a fixed 32-byte output, a webhook configuration with a
  secret, and a signed push request.
\<close>

definition fixedMac :: "string \<Rightarrow> string \<Rightarrow> string" where
  "fixedMac secret body = ''0123456789abcdef0123456789abcdef''"

definition fixedMacSignature :: string where
  "fixedMacSignature =
     ''sha256=30313233343536373839616263646566'' @ ''30313233343536373839616263646566''"

definition securedHook :: WebhookConfig where
  "securedHook = \<lparr> wc_secret = Some ''s3cret'', wc_path = ''/webhook'' \<rparr>"

definition pushRequest :: "string \<Rightarrow> Request" where
  "pushRequest signature =
     \<lparr> rq_method = ''POST'', rq_url = ''/webhook'', rq_signature = Some signature,
       rq_event = Some ''push'', rq_body = ''{}'' \<rparr>"

definition parseNothing :: "string \<Rightarrow> jsval option" where
  "parseNothing text = None"

text \<open>The signature above with its first digest character changed from \<open>3\<close> to \<open>f\<close>.\<close>

definition tamperedSignature :: string where
  "tamperedSignature =
     ''sha256=f0313233343536373839616263646566'' @ ''30313233343536373839616263646566''"

text \<open>
  Workspaces for the analyzer. \<open>hostRootManifest pkg\<close> has \<open>pkg\<close> as its root manifest
  and nothing else; \<open>hostLibOnly\<close> has no root manifest and one sub-directory, \<open>lib\<close>,
  whose manifest declares only \<open>lodash\<close>.
\<close>

definition hostRootManifest :: "jsval \<Rightarrow> host" where
  "hostRootManifest pkg =
     bareHost
       \<lparr> pathExists := (\<lambda>p. p = ''/var/apps/demo/package.json''),
         readJson := (\<lambda>p. if p = ''/var/apps/demo/package.json'' then Some pkg else None) \<rparr>"

definition expressTurboManifest :: jsval where
  "expressTurboManifest =
     JObj [(''name'', JStr ''demo''),
           (''scripts'', JObj [(''start'', JStr ''node server.js'')]),
           (''dependencies'', JObj [(''express'', JStr ''^4.18.2'')]),
           (''devDependencies'', JObj [(''turbo'', JStr ''^1.10.0'')])]"

definition expressManifest :: jsval where
  "expressManifest =
     JObj [(''name'', JStr ''demo''),
           (''scripts'', JObj [(''start'', JStr ''node server.js'')]),
           (''dependencies'', JObj [(''express'', JStr ''^4.18.2'')])]"

definition nextManifest :: jsval where
  "nextManifest =
     JObj [(''name'', JStr ''demo''),
           (''scripts'', JObj [(''build'', JStr ''next build''), (''start'', JStr ''next start'')]),
           (''dependencies'', JObj [(''next'', JStr ''14.1.0''), (''react'', JStr ''^18.2.0'')])]"

definition workspacesManifest :: jsval where
  "workspacesManifest =
     JObj [(''name'', JStr ''demo''),
           (''workspaces'', JArr [JStr ''packages/*'']),
           (''dependencies'', JObj [(''express'', JStr ''^4.18.2'')])]"

definition hostLibOnly :: host where
  "hostLibOnly =
     bareHost
       \<lparr> pathExists := (\<lambda>p. p = ''/var/apps/demo/lib'' \<or> p = ''/var/apps/demo/lib/package.json''),
         readJson := (\<lambda>p. if p = ''/var/apps/demo/lib/package.json''
                            then Some (JObj [(''name'', JStr ''lib''),
                                             (''dependencies'', JObj [(''lodash'', JStr ''^4.17.21'')])])
                            else None),
         readdir := (\<lambda>p. if p = ''/var/apps/demo'' then Some [(''lib'', True)] else None) \<rparr>"

text \<open>
  A host on which the \<open>shop\<close> repository can be deployed as a backend: the workspace does
  not exist yet, \<open>git\<close>, \<open>npm\<close> and \<open>pm2\<close> succeed, the cloned root manifest depends on
  \<open>express\<close>, port 3000 is free, and every file can be written. Its two parameters say
  whether \<open>nginx -t\<close> and \<open>nginx -s reload\<close> succeed (with or without \<open>sudo\<close>).
\<close>

definition hostBackendRepo :: "bool \<Rightarrow> bool \<Rightarrow> host" where
  "hostBackendRepo syntaxOk reloadOk =
     bareHost
       \<lparr> execa := (\<lambda>cmd args cwd.
            if cmd = ''git'' \<or> cmd = ''npm'' \<or> cmd = ''pm2'' then Some []
            else if (cmd = ''sudo'' \<and> args = [''nginx'', ''-t'']) \<or> (cmd = ''nginx'' \<and> args = [''-t''])
            then (if syntaxOk then Some [] else None)
            else if (cmd = ''sudo'' \<and> args = [''nginx'', ''-s'', ''reload''])
                    \<or> (cmd = ''nginx'' \<and> args = [''-s'', ''reload''])
            then (if reloadOk then Some [] else None)
            else if cmd = ''sudo'' then Some []
            else None),
         pathExists := (\<lambda>p. p = ''/var/apps/shop/package.json''),
         readJson := (\<lambda>p. if p = ''/var/apps/shop/package.json'' then Some expressManifest else None),
         parseURL := (\<lambda>url. if url = ''https://github.com/acme/shop.git''
                             then Some (''https:'', ''github.com'') else None) \<rparr>"

definition shopConfig :: DeployConfig where
  "shopConfig =
     \<lparr> c_repoUrl = ''https://github.com/acme/shop.git'',
       c_branch = ''main'',
       c_projectType = UNKNOWN,
       c_port = Some 3000,
       c_envVars = None,
       c_projectName = ''shop'',
       c_basePath = Some ''/'',
       c_environment = Some ''production'',
       c_webhookEnabled = Some False \<rparr>"

definition shopAnalysis :: ProjectAnalysis where
  "shopAnalysis =
     \<lparr> a_type = BACKEND, a_packageManager = NPM, a_hasBuildScript = False,
       a_hasStartScript = True, a_buildCommand = JUndefined,
       a_startCommand = JStr ''node server.js'', a_frontendPath = None, a_backendPath = None,
       a_isSSR = False, a_staticOutputDir = None \<rparr>"

definition shopDeployed :: ProjectMetadata where
  "shopDeployed =
     \<lparr> m_name = ''shop'',
       m_repoUrl = ''https://github.com/acme/shop.git'',
       m_branch = ''main'',
       m_type = ''backend'',
       m_port = Some 3000,
       m_basePath = ''/'',
       m_createdAt = ''2026-02-01T00:00:00.000Z'',
       m_updatedAt = ''2026-02-01T00:00:00.000Z'',
       m_pm2ProcessName = Some ''shop'',
       m_nginxConfigPath = Some ''/etc/nginx/conf.d/shop.conf'',
       m_environment = Some ''production'',
       m_webhookEnabled = Some False \<rparr>"

section \<open>Verification: project names\<close>

lemma lowerChar_nameChar: "isNameChar c \<Longrightarrow> lowerChar c = c"
  unfolding isNameChar_def by (elim disjE | simp add: lowerChar_def)+

lemma toLowerCase_names: "list_all isNameChar s \<Longrightarrow> toLowerCase s = s"
  by (induction s) (auto simp: toLowerCase_def lowerChar_nameChar)

lemma replaceUnsafe_names: "list_all isNameChar s \<Longrightarrow> replaceUnsafe s = s"
  by (induction s) (auto simp: replaceUnsafe_def)

lemma hyphen_nameChar: "isNameChar (CHR ''-'')"
  by (simp add: isNameChar_def)

lemma replaceUnsafe_all_names: "list_all isNameChar (replaceUnsafe s)"
  by (induction s) (auto simp: replaceUnsafe_def hyphen_nameChar)

lemma collapseHyphens_fixed: "noDoubleHyphen s \<Longrightarrow> collapseHyphens s = s"
  by (induction s rule: collapseHyphens.induct) auto

lemma collapseHyphens_subset: "set (collapseHyphens s) \<subseteq> set s"
  by (induction s rule: collapseHyphens.induct) auto

lemma collapseHyphens_head:
  "collapseHyphens (c # cs) \<noteq> [] \<and> hd (collapseHyphens (c # cs)) = c"
  by (induction "c # cs" arbitrary: c cs rule: collapseHyphens.induct) auto

lemma collapseHyphens_noDouble: "noDoubleHyphen (collapseHyphens s)"
proof (induction s rule: collapseHyphens.induct)
  case (3 c d cs)
  obtain e es where "collapseHyphens (d # cs) = e # es" and "e = d"
    using collapseHyphens_head[of d cs] by (cases "collapseHyphens (d # cs)") auto
  with 3 show ?case by auto
qed auto

lemma noDoubleHyphen_tl: "noDoubleHyphen s \<Longrightarrow> noDoubleHyphen (tl s)"
  by (induction s rule: noDoubleHyphen.induct) auto

lemma noDoubleHyphen_butlast: "noDoubleHyphen s \<Longrightarrow> noDoubleHyphen (butlast s)"
  by (induction s rule: noDoubleHyphen.induct) (auto split: if_splits)

lemma noDoubleHyphen_before_last:
  "noDoubleHyphen s \<Longrightarrow> s \<noteq> [] \<Longrightarrow> last s = CHR ''-'' \<Longrightarrow> butlast s \<noteq> []
   \<Longrightarrow> last (butlast s) \<noteq> CHR ''-''"
  by (induction s rule: noDoubleHyphen.induct) (auto split: if_splits)

lemma stripEdgeHyphens_fixed:
  "noLeadingHyphen s \<Longrightarrow> noTrailingHyphen s \<Longrightarrow> stripEdgeHyphens s = s"
  by (auto simp: noLeadingHyphen_def noTrailingHyphen_def stripEdgeHyphens_def split: list.splits)

lemma stripEdgeHyphens_subset: "set (stripEdgeHyphens s) \<subseteq> set s"
  by (auto simp: stripEdgeHyphens_def Let_def split: list.splits dest: in_set_butlastD)

lemma stripEdgeHyphens_noDouble: "noDoubleHyphen s \<Longrightarrow> noDoubleHyphen (stripEdgeHyphens s)"
  using noDoubleHyphen_tl[of s] noDoubleHyphen_butlast[of s] noDoubleHyphen_butlast[of "tl s"]
  by (auto simp: stripEdgeHyphens_def Let_def split: list.splits)

lemma stripEdgeHyphens_noTrailing: "noDoubleHyphen s \<Longrightarrow> noTrailingHyphen (stripEdgeHyphens s)"
  using noDoubleHyphen_tl[of s] noDoubleHyphen_before_last[of s]
    noDoubleHyphen_before_last[of "tl s"]
  by (auto simp: stripEdgeHyphens_def Let_def noTrailingHyphen_def split: list.splits)

lemma noLeadingHyphen_butlast: "noLeadingHyphen s \<Longrightarrow> noLeadingHyphen (butlast s)"
  by (cases s) (auto simp: noLeadingHyphen_def split: list.splits)

lemma noLeadingHyphen_after_hyphen: "noDoubleHyphen (CHR ''-'' # cs) \<Longrightarrow> noLeadingHyphen cs"
  by (cases cs) (auto simp: noLeadingHyphen_def)

lemma stripEdgeHyphens_noLeading:
  assumes nd: "noDoubleHyphen s"
  shows "noLeadingHyphen (stripEdgeHyphens s)"
proof (cases s)
  case Nil
  then show ?thesis by (simp add: stripEdgeHyphens_def noLeadingHyphen_def)
next
  case (Cons c cs)
  show ?thesis
  proof (cases "c = CHR ''-''")
    case True
    with nd Cons have "noLeadingHyphen cs" by (simp add: noLeadingHyphen_after_hyphen)
    then show ?thesis
      using Cons True noLeadingHyphen_butlast[of cs] by (auto simp: stripEdgeHyphens_def Let_def)
  next
    case False
    then show ?thesis
      using Cons by (auto simp: stripEdgeHyphens_def noLeadingHyphen_def Let_def)
  qed
qed

lemma sanitizeProjectName_shape:
  "list_all isNameChar (sanitizeProjectName x) \<and> noLeadingHyphen (sanitizeProjectName x)
   \<and> noTrailingHyphen (sanitizeProjectName x) \<and> noDoubleHyphen (sanitizeProjectName x)"
proof -
  let ?r = "replaceUnsafe (toLowerCase x)"
  have "set (sanitizeProjectName x) \<subseteq> set ?r"
    unfolding sanitizeProjectName_def using stripEdgeHyphens_subset collapseHyphens_subset by blast
  moreover have "list_all isNameChar ?r" by (rule replaceUnsafe_all_names)
  ultimately have "list_all isNameChar (sanitizeProjectName x)"
    by (auto simp: list_all_iff)
  then show ?thesis
    by (simp add: sanitizeProjectName_def stripEdgeHyphens_noLeading stripEdgeHyphens_noTrailing
        stripEdgeHyphens_noDouble collapseHyphens_noDouble)
qed

lemma sanitizeProjectName_fixed:
  "list_all isNameChar s \<Longrightarrow> noLeadingHyphen s \<Longrightarrow> noTrailingHyphen s \<Longrightarrow> noDoubleHyphen s
   \<Longrightarrow> sanitizeProjectName s = s"
  by (simp add: sanitizeProjectName_def toLowerCase_names replaceUnsafe_names
      collapseHyphens_fixed stripEdgeHyphens_fixed)

text \<open>
  Claim C9. For every input string \<open>x\<close>, \<open>sanitizeProjectName\<close> is idempotent, and its
  output contains only lowercase alphanumerics and hyphens, with no leading hyphen, no
  trailing hyphen and no two consecutive hyphens.
\<close>

theorem sanitizeProjectName_idempotent_wellformed:
  "sanitizeProjectName (sanitizeProjectName x) = sanitizeProjectName x
   \<and> list_all isNameChar (sanitizeProjectName x)
   \<and> noLeadingHyphen (sanitizeProjectName x)
   \<and> noTrailingHyphen (sanitizeProjectName x)
   \<and> noDoubleHyphen (sanitizeProjectName x)"
  using sanitizeProjectName_shape[of x] by (simp add: sanitizeProjectName_fixed)

theorem sanitizeProjectName_idempotent_wellformed_witness:
  "sanitizeProjectName ''--My_App!!2--'' = ''my-app-2''
   \<and> sanitizeProjectName (sanitizeProjectName ''--My_App!!2--'') = ''my-app-2''
   \<and> list_all isNameChar (sanitizeProjectName ''--My_App!!2--'')
   \<and> noLeadingHyphen (sanitizeProjectName ''--My_App!!2--'')
   \<and> noTrailingHyphen (sanitizeProjectName ''--My_App!!2--'')
   \<and> noDoubleHyphen (sanitizeProjectName ''--My_App!!2--'')"
proof -
  have v: "sanitizeProjectName ''--My_App!!2--'' = ''my-app-2''"
    by (simp add: sanitizeProjectName_def toLowerCase_def lowerChar_def
        replaceUnsafe_def isNameChar_def stripEdgeHyphens_def)
  show ?thesis
    using sanitizeProjectName_idempotent_wellformed[of "''--My_App!!2--''"] v by simp
qed

section \<open>Verification: port allocation\<close>

lemma findPortLoop_unfold:
  "findPortLoop h startPort maxAttempts port attempts =
     (if attempts < maxAttempts then
        (if \<not> isPortInUse h port then port
         else findPortLoop h startPort maxAttempts (port + 1) (attempts + 1))
      else startPort)"
  by (rule findPortLoop.simps)

declare findPortLoop.simps [simp del]

lemma findPortLoop_found:
  "(\<forall>j. j < d \<longrightarrow> isPortInUse h (port + int j)) \<Longrightarrow> \<not> isPortInUse h (port + int d)
   \<Longrightarrow> attempts + int d < maxAttempts
   \<Longrightarrow> findPortLoop h startPort maxAttempts port attempts = port + int d"
proof (induction d arbitrary: port attempts)
  case 0
  then show ?case by (simp add: findPortLoop_unfold)
next
  case (Suc d)
  have inuse: "isPortInUse h port" using Suc.prems(1)[rule_format, of 0] by simp
  have "findPortLoop h startPort maxAttempts (port + 1) (attempts + 1) = (port + 1) + int d"
  proof (rule Suc.IH)
    show "\<forall>j. j < d \<longrightarrow> isPortInUse h (port + 1 + int j)"
    proof (intro allI impI)
      fix j assume "j < d"
      then have "Suc j < Suc d" by simp
      from Suc.prems(1)[rule_format, OF this] show "isPortInUse h (port + 1 + int j)"
        by (simp add: algebra_simps)
    qed
    show "\<not> isPortInUse h (port + 1 + int d)" using Suc.prems(2) by (simp add: algebra_simps)
    show "attempts + 1 + int d < maxAttempts" using Suc.prems(3) by simp
  qed
  with inuse Suc.prems(3) show ?case
    by (subst findPortLoop_unfold) simp
qed

lemma findPortLoop_exhausted:
  "(\<forall>j. 0 \<le> j \<and> j < maxAttempts - attempts \<longrightarrow> isPortInUse h (port + j))
   \<Longrightarrow> findPortLoop h startPort maxAttempts port attempts = startPort"
proof (induction h startPort maxAttempts port attempts rule: findPortLoop.induct)
  case (1 h startPort maxAttempts port attempts)
  show ?case
  proof (cases "attempts < maxAttempts")
    case False
    then show ?thesis by (subst findPortLoop_unfold) simp
  next
    case True
    have inuse: "isPortInUse h port" using "1.prems"[rule_format, of 0] True by simp
    have "findPortLoop h startPort maxAttempts (port + 1) (attempts + 1) = startPort"
    proof (rule "1.IH"[OF True])
      show "\<not> \<not> isPortInUse h port" using inuse by simp
      show "\<forall>j. 0 \<le> j \<and> j < maxAttempts - (attempts + 1) \<longrightarrow> isPortInUse h (port + 1 + j)"
      proof (intro allI impI)
        fix j assume "0 \<le> j \<and> j < maxAttempts - (attempts + 1)"
        then have "0 \<le> j + 1 \<and> j + 1 < maxAttempts - attempts" by simp
        from "1.prems"[rule_format, OF this] show "isPortInUse h (port + 1 + j)"
          by (simp add: algebra_simps)
      qed
    qed
    with inuse True show ?thesis by (subst findPortLoop_unfold) simp
  qed
qed

lemma showNat_3000: "showNat 3000 = ''3000''"
  by (simp add: showNat.simps[of 3000] showNat.simps[of 300] showNat.simps[of 30]
      showNat.simps[of 3])

lemma showNat_3001: "showNat 3001 = ''3001''"
  by (simp add: showNat.simps[of 3001] showNat.simps[of 300] showNat.simps[of 30]
      showNat.simps[of 3])

lemma hostListening3000_3000: "isPortInUse hostListening3000 3000"
  by (simp add: isPortInUse_def hostListening3000_def bareHost_def listed_def showInt_def
      showNat_3000 ssListing_def)

lemma hostListening3000_3001: "\<not> isPortInUse hostListening3000 3001"
  by (simp add: isPortInUse_def hostListening3000_def bareHost_def listed_def showInt_def
      showNat_3001 ssListing_def)

lemma hostAllPortsBusy_any: "isPortInUse hostAllPortsBusy p"
  by (simp add: isPortInUse_def hostAllPortsBusy_def bareHost_def)

text \<open>
  Claim C4, as stated, at the boundary \<open>k + 1 = maxAttempts\<close>: port 3000 is occupied,
  port 3001 is free, \<open>k = 0\<close> and \<open>maxAttempts = 1\<close>, so \<open>k + 1 \<le> maxAttempts\<close>; the
  claim promises 3001 and the loop, having used its single attempt on 3000, returns 3000.
\<close>

theorem findAvailablePort_boundary_counterexample:
  "isPortInUse hostListening3000 3000 \<and> \<not> isPortInUse hostListening3000 (3000 + 0 + 1)
   \<and> (0::int) + 1 \<le> 1
   \<and> findAvailablePort hostListening3000 3000 1 = 3000
   \<and> findAvailablePort hostListening3000 3000 1 \<noteq> 3000 + 0 + 1"
  using hostListening3000_3000 hostListening3000_3001
  by (simp add: findAvailablePort_def findPortLoop_unfold[of _ _ 1 _ 0]
      findPortLoop_unfold[of _ _ 1 _ 1])

text \<open>
  Claim C4, amended. If \<open>P\<close> is free, \<open>findAvailablePort P n\<close> returns \<open>P\<close> for any
  \<open>n \<ge> 1\<close>; if \<open>P .. P+k\<close> are all occupied and \<open>P+k+1\<close> is free with
  \<open>k + 1 < maxAttempts\<close> (the loop probes exactly \<open>maxAttempts\<close> ports, \<open>P\<close> included),
  it returns \<open>P+k+1\<close>; and if every probed port \<open>P .. P+maxAttempts-1\<close> is occupied, it
  returns the original \<open>P\<close>.
\<close>

theorem findAvailablePort_scan:
  "(1 \<le> n \<and> \<not> isPortInUse h P \<longrightarrow> findAvailablePort h P n = P)
   \<and> ((\<forall>j. j \<le> k \<longrightarrow> isPortInUse h (P + int j)) \<and> \<not> isPortInUse h (P + int k + 1)
        \<and> int k + 1 < n
      \<longrightarrow> findAvailablePort h P n = P + int k + 1)
   \<and> ((\<forall>j. 0 \<le> j \<and> j < n \<longrightarrow> isPortInUse h (P + j)) \<longrightarrow> findAvailablePort h P n = P)"
proof (intro conjI impI)
  assume "1 \<le> n \<and> \<not> isPortInUse h P"
  then show "findAvailablePort h P n = P"
    using findPortLoop_found[of 0 h P 0 n P] by (simp add: findAvailablePort_def)
next
  assume a: "(\<forall>j. j \<le> k \<longrightarrow> isPortInUse h (P + int j)) \<and> \<not> isPortInUse h (P + int k + 1)
        \<and> int k + 1 < n"
  have "findPortLoop h P n P 0 = P + int (Suc k)"
  proof (rule findPortLoop_found)
    show "\<forall>j. j < Suc k \<longrightarrow> isPortInUse h (P + int j)" using a by simp
    show "\<not> isPortInUse h (P + int (Suc k))" using a by (simp add: algebra_simps)
    show "0 + int (Suc k) < n" using a by simp
  qed
  then show "findAvailablePort h P n = P + int k + 1"
    by (simp add: findAvailablePort_def algebra_simps)
next
  assume "\<forall>j. 0 \<le> j \<and> j < n \<longrightarrow> isPortInUse h (P + j)"
  then show "findAvailablePort h P n = P"
    using findPortLoop_exhausted[of n 0 h P P] by (simp add: findAvailablePort_def)
qed

theorem findAvailablePort_scan_witness:
  "findAvailablePort hostListening3000 3001 10 = 3001
   \<and> findAvailablePort hostListening3000 3000 10 = 3001
   \<and> findAvailablePort hostAllPortsBusy 3000 10 = 3000"
proof -
  have free: "1 \<le> (10::int) \<and> \<not> isPortInUse hostListening3000 3001"
    using hostListening3000_3001 by simp
  have busy: "(\<forall>j. j \<le> (0::nat) \<longrightarrow> isPortInUse hostListening3000 (3000 + int j))
      \<and> \<not> isPortInUse hostListening3000 (3000 + int 0 + 1) \<and> int 0 + 1 < 10"
    using hostListening3000_3000 hostListening3000_3001 by simp
  have full: "\<forall>j. 0 \<le> j \<and> j < 10 \<longrightarrow> isPortInUse hostAllPortsBusy (3000 + j)"
    by (simp add: hostAllPortsBusy_any)
  show ?thesis
    using findAvailablePort_scan[of 10 hostListening3000 3001 0] free
      findAvailablePort_scan[of 10 hostListening3000 3000 0] busy
      findAvailablePort_scan[of 10 hostAllPortsBusy 3000 0] full
    by simp
qed

section \<open>Verification: metadata and the update command\<close>

lemma sanitize_shop: "sanitizeProjectName ''shop'' = ''shop''"
  by (simp add: sanitizeProjectName_def toLowerCase_def lowerChar_def
        replaceUnsafe_def isNameChar_def stripEdgeHyphens_def)

lemma trim_develop: "trim (''develop'' @ [CHR 0x0A]) = ''develop''"
  by (simp add: trim_def isSpace_def)

lemma cloneRepo_shop_main:
  "cloneRepo hostShop \<lparr> co_repoUrl = ''https://github.com/acme/shop.git'', co_branch = ''main'',
       co_projectName = ''shop'', co_force = False \<rparr>
   = (Inr ''/var/apps/shop'',
      [(''git'', [''branch'', ''--show-current'']), (''git'', [''checkout'', ''main'']),
       (''git'', [''pull'', ''origin'', ''main''])])"
  by (simp add: cloneRepo_def validateRepoUrl_def hostShop_def bareHost_def getProjectPath_def
      sanitize_shop joinPath_def updateRepo_def trim_def isSpace_def toLowerCase_def lowerChar_def)

lemma updateRepo_commands: "\<forall>c \<in> set (snd (updateRepo h p b)). fst c = ''git''"
  by (auto simp: updateRepo_def split: option.splits if_splits)

lemma cloneRepo_commands: "\<forall>c \<in> set (snd (cloneRepo h options)). fst c = ''git''"
  using updateRepo_commands
  by (auto simp: cloneRepo_def split: option.splits if_splits)

text \<open>Whatever happens, \<open>update\<close> starts only \<open>git\<close> and \<open>pm2\<close> commands.\<close>

lemma updateCommand_commands:
  "\<forall>c \<in> set (uo_commands (updateCommand h st name branchArg now)).
     fst c = ''git'' \<or> fst c = ''pm2''"
proof (cases "loadMetadata st name")
  case None
  then show ?thesis by (simp add: updateCommand_def)
next
  case (Some md)
  let ?b = "if updateBranchOption branchArg \<noteq> [] then updateBranchOption branchArg
            else m_branch md"
  let ?c = "cloneRepo h \<lparr> co_repoUrl = m_repoUrl md, co_branch = ?b, co_projectName = name,
                          co_force = False \<rparr>"
  have g: "\<forall>c \<in> set (snd ?c). fst c = ''git''" by (rule cloneRepo_commands)
  obtain r cmds where c: "?c = (r, cmds)" by (cases ?c)
  with g have g': "\<forall>c \<in> set cmds. fst c = ''git''" by simp
  show ?thesis
    using Some c g'
    by (auto simp: updateCommand_def Let_def split: sum.splits option.splits prod.splits)
qed

text \<open>Leaving \<open>--branch\<close> out is the same as passing \<open>--branch main\<close>, on every host.\<close>

lemma updateCommand_branch_defaults_to_main:
  "updateCommand h st name None now = updateCommand h st name (Some ''main'') now"
proof -
  have e: "updateBranchOption None = updateBranchOption (Some ''main'')"
    by (simp add: updateBranchOption_def)
  show ?thesis unfolding updateCommand_def e by (rule refl)
qed

text \<open>
  Claim C5 says that \<open>update\<close> without a branch re-fetches the branch stored in the
  record. Evaluated on a project whose record stores \<open>develop\<close>: the \<open>--branch\<close>
  option defaults to \<open>'main'\<close>, so \<open>options.branch || metadata.branch\<close> never reaches the
  stored branch; the run checks out and pulls \<open>main\<close>, restarts the supervisor entry, and
  rewrites the record's branch to \<open>main\<close>. No install, build or proxy command is run.
\<close>

theorem update_without_branch_pulls_main:
  "m_branch shopRecord = ''develop''
   \<and> uo_exitCode (updateCommand hostShop shopStore ''shop'' None ''2026-02-01T00:00:00.000Z'') = 0
   \<and> uo_commands (updateCommand hostShop shopStore ''shop'' None ''2026-02-01T00:00:00.000Z'')
       = [(''git'', [''branch'', ''--show-current'']), (''git'', [''checkout'', ''main'']),
          (''git'', [''pull'', ''origin'', ''main'']), (''pm2'', [''restart'', ''shop''])]
   \<and> loadMetadata (uo_store (updateCommand hostShop shopStore ''shop'' None ''2026-02-01T00:00:00.000Z'')) ''shop''
       = Some (shopRecord\<lparr> m_branch := ''main'', m_updatedAt := ''2026-02-01T00:00:00.000Z'' \<rparr>)"
proof -
  have load: "loadMetadata shopStore ''shop'' = Some shopRecord"
    by (simp add: loadMetadata_def shopStore_def)
  have pm2: "execa hostShop ''pm2'' [''restart'', ''shop''] [] = Some []"
    by (simp add: hostShop_def bareHost_def)
  have w: "writeOk hostShop p" for p by (simp add: hostShop_def bareHost_def)
  have rec: "m_repoUrl shopRecord = ''https://github.com/acme/shop.git''"
    "m_pm2ProcessName shopRecord = Some ''shop''" "m_branch shopRecord = ''develop''"
    by (simp_all add: shopRecord_def)
  have upd: "updateMetadata hostShop shopStore ''shop''
       (noUpdates\<lparr> u_branch := Some ''main'', u_updatedAt := Some ''2026-02-01T00:00:00.000Z'' \<rparr>)
       ''2026-02-01T00:00:00.000Z''
     = (Inr (), shopStore(''shop'' \<mapsto> Stored (shopRecord\<lparr> m_branch := ''main'', m_updatedAt := ''2026-02-01T00:00:00.000Z'' \<rparr>)))"
    by (simp add: updateMetadata_def load saveMetadata_def mergeMetadata_def pick_def noUpdates_def w shopRecord_def)
  have run: "updateCommand hostShop shopStore ''shop'' None ''2026-02-01T00:00:00.000Z''
    = \<lparr> uo_exitCode = 0, uo_error = None,
        uo_commands = [(''git'', [''branch'', ''--show-current'']), (''git'', [''checkout'', ''main'']),
          (''git'', [''pull'', ''origin'', ''main'']), (''pm2'', [''restart'', ''shop''])],
        uo_store = shopStore(''shop'' \<mapsto> Stored (shopRecord\<lparr> m_branch := ''main'', m_updatedAt := ''2026-02-01T00:00:00.000Z'' \<rparr>)) \<rparr>"
    by (simp add: updateCommand_def load updateBranchOption_def rec cloneRepo_shop_main present_def pm2 upd Let_def)
  show ?thesis by (simp add: run rec loadMetadata_def)
qed

text \<open>
  Claim C8. For every project name with no existing metadata record (no file, or a file
  that cannot be read), \<open>updateMetadata\<close> fails with the not-found error and leaves the
  store as it was: nothing is created or modified.
\<close>

theorem updateMetadata_missing_record:
  "loadMetadata st projectName = None
   \<Longrightarrow> updateMetadata h st projectName updates now = (Inl (MetadataNotFound projectName), st)"
  by (simp add: updateMetadata_def)

theorem updateMetadata_missing_record_witness:
  "loadMetadata noProjects ''ghost'' = None
   \<and> updateMetadata bareHost noProjects ''ghost'' (noUpdates\<lparr> u_branch := Some ''main'' \<rparr>) ''2026-02-01T00:00:00.000Z''
       = (Inl (MetadataNotFound ''ghost''), noProjects)"
proof -
  have none: "loadMetadata noProjects ''ghost'' = None"
    by (simp add: loadMetadata_def noProjects_def)
  show ?thesis
    using updateMetadata_missing_record[OF none, of bareHost "noUpdates\<lparr> u_branch := Some ''main'' \<rparr>" "''2026-02-01T00:00:00.000Z''"] none
    by simp
qed

section \<open>Verification: webhook signatures\<close>

lemma hexTable_all_ascii: "list_all isAscii ''0123456789abcdef''"
  by (simp add: isAscii_def)

lemma hexTable_ascii: "n < 16 \<Longrightarrow> isAscii (''0123456789abcdef'' ! n)"
  using hexTable_all_ascii unfolding list_all_length by simp

lemma of_char_div16: "(of_char c :: nat) div 16 < 16"
proof -
  have "(of_char c :: nat) < 256" by simp
  then show ?thesis by presburger
qed

lemma hexByte_ascii: "list_all isAscii (hexByte c)"
  by (simp add: hexByte_def hexTable_ascii of_char_div16)

lemma hexDigest_ascii: "list_all isAscii (hexDigest bytes)"
  by (induction bytes) (simp_all add: hexDigest_def hexByte_ascii)

lemma hexDigest_length: "length (hexDigest bytes) = 2 * length bytes"
  by (induction bytes) (simp_all add: hexDigest_def hexByte_def)

lemma expectedSignature_ascii: "list_all isAscii (expectedSignature hmac b secret)"
  by (simp add: expectedSignature_def hexDigest_ascii isAscii_def)

lemma bufferFrom_ascii: "list_all isAscii s \<Longrightarrow> bufferFrom s = s"
  by (induction s) (simp_all add: bufferFrom_def utf8Char_def isAscii_def)





lemma fixedMac_signature: "expectedSignature fixedMac b secret = fixedMacSignature"
  by (simp add: expectedSignature_def fixedMac_def hexDigest_def hexByte_def fixedMacSignature_def)


lemma fixedMac_flipped:
  "fixedMacSignature[7 := CHR ''f''] =
     ''sha256=f0313233343536373839616263646566'' @ ''30313233343536373839616263646566''"
  by (simp add: fixedMacSignature_def)


text \<open>
  Claim C10. The expected value is \<open>sha256=\<close> followed by two hexadecimal digits per
  digest byte (64 for SHA-256). When a secret is configured and the signature header has a
  different byte length, \<open>timingSafeEqual\<close> throws instead of returning false and the
  request is answered with 500, whereas a mismatch of the same byte length is answered
  with 401.
\<close>

theorem webhook_signature_length_mismatch:
  "length (expectedSignature hmac b secret) = 7 + 2 * length (hmac secret b)
   \<and> (length (bufferFrom signature) \<noteq> length (bufferFrom (expectedSignature hmac b secret))
      \<longrightarrow> verifySignature hmac b signature secret = Inl RangeError)
   \<and> (rq_method req = ''POST'' \<and> rq_url req = wc_path config \<and> wc_secret config = Some secret
        \<and> secret \<noteq> [] \<and> rq_signature req = Some signature \<and> signature \<noteq> []
        \<and> length (bufferFrom signature)
            \<noteq> length (bufferFrom (expectedSignature hmac (rq_body req) secret))
      \<longrightarrow> handleRequest hmac parse h config projects req
          = (\<lparr> rs_status = 500, rs_body = ''{success:false}'' \<rparr>, []))
   \<and> (rq_method req = ''POST'' \<and> rq_url req = wc_path config \<and> wc_secret config = Some secret
        \<and> secret \<noteq> [] \<and> rq_signature req = Some signature \<and> signature \<noteq> []
        \<and> length (bufferFrom signature)
            = length (bufferFrom (expectedSignature hmac (rq_body req) secret))
        \<and> bufferFrom signature \<noteq> bufferFrom (expectedSignature hmac (rq_body req) secret)
      \<longrightarrow> handleRequest hmac parse h config projects req
          = (\<lparr> rs_status = 401, rs_body = ''Unauthorized'' \<rparr>, []))"
  by (simp add: expectedSignature_def hexDigest_length verifySignature_def timingSafeEqual_def
      handleRequest_def present_def internalError_def)

theorem webhook_signature_length_mismatch_witness:
  "length fixedMacSignature = 71
   \<and> verifySignature fixedMac ''{}'' ''sha256=abc'' ''s3cret'' = Inl RangeError
   \<and> handleRequest fixedMac parseNothing bareHost securedHook [] (pushRequest ''sha256=abc'')
       = (\<lparr> rs_status = 500, rs_body = ''{success:false}'' \<rparr>, [])
   \<and> handleRequest fixedMac parseNothing bareHost securedHook [] (pushRequest tamperedSignature)
       = (\<lparr> rs_status = 401, rs_body = ''Unauthorized'' \<rparr>, [])"
proof -
  have e: "expectedSignature fixedMac b ''s3cret'' = fixedMacSignature" for b
    by (rule fixedMac_signature)
  have b1: "bufferFrom fixedMacSignature = fixedMacSignature"
    using bufferFrom_ascii[OF expectedSignature_ascii[of fixedMac "''{}''" "''s3cret''"]] e by simp
  have b2: "bufferFrom ''sha256=abc'' = ''sha256=abc''"
    by (simp add: bufferFrom_def utf8Char_def)
  have b3: "bufferFrom tamperedSignature = tamperedSignature"
    by (rule bufferFrom_ascii) (simp add: tamperedSignature_def isAscii_def)
  have l: "length fixedMacSignature = 71" "length tamperedSignature = 71"
    "tamperedSignature \<noteq> fixedMacSignature" "tamperedSignature \<noteq> []"
    by (simp_all add: fixedMacSignature_def tamperedSignature_def)
  have short: "rq_method (pushRequest ''sha256=abc'') = ''POST''
      \<and> rq_url (pushRequest ''sha256=abc'') = wc_path securedHook
      \<and> wc_secret securedHook = Some ''s3cret'' \<and> ''s3cret'' \<noteq> []
      \<and> rq_signature (pushRequest ''sha256=abc'') = Some ''sha256=abc'' \<and> ''sha256=abc'' \<noteq> []
      \<and> length (bufferFrom ''sha256=abc'')
          \<noteq> length (bufferFrom (expectedSignature fixedMac (rq_body (pushRequest ''sha256=abc'')) ''s3cret''))"
    by (simp add: pushRequest_def securedHook_def e b1 b2 l)
  have same: "rq_method (pushRequest tamperedSignature) = ''POST''
      \<and> rq_url (pushRequest tamperedSignature) = wc_path securedHook
      \<and> wc_secret securedHook = Some ''s3cret'' \<and> ''s3cret'' \<noteq> []
      \<and> rq_signature (pushRequest tamperedSignature) = Some tamperedSignature
      \<and> tamperedSignature \<noteq> []
      \<and> length (bufferFrom tamperedSignature)
          = length (bufferFrom (expectedSignature fixedMac (rq_body (pushRequest tamperedSignature)) ''s3cret''))
      \<and> bufferFrom tamperedSignature
          \<noteq> bufferFrom (expectedSignature fixedMac (rq_body (pushRequest tamperedSignature)) ''s3cret'')"
    by (simp add: pushRequest_def securedHook_def e b1 b3 l)
  have len: "length (bufferFrom ''sha256=abc'')
      \<noteq> length (bufferFrom (expectedSignature fixedMac ''{}'' ''s3cret''))"
    by (simp add: e b1 b2 l)
  from webhook_signature_length_mismatch[of fixedMac "''{}''" "''s3cret''" "''sha256=abc''"
        "pushRequest ''sha256=abc''" securedHook parseNothing bareHost "[]"] short len
  have r1: "verifySignature fixedMac ''{}'' ''sha256=abc'' ''s3cret'' = Inl RangeError"
    and r2: "handleRequest fixedMac parseNothing bareHost securedHook [] (pushRequest ''sha256=abc'')
       = (\<lparr> rs_status = 500, rs_body = ''{success:false}'' \<rparr>, [])"
    by blast+
  from webhook_signature_length_mismatch[of fixedMac "''{}''" "''s3cret''" tamperedSignature
        "pushRequest tamperedSignature" securedHook parseNothing bareHost "[]"] same
  have r3: "handleRequest fixedMac parseNothing bareHost securedHook [] (pushRequest tamperedSignature)
       = (\<lparr> rs_status = 401, rs_body = ''Unauthorized'' \<rparr>, [])"
    by blast
  show ?thesis using l r1 r2 r3 by simp
qed


text \<open>
  The boundary between the two behaviours: replacing one character of the expected
  signature by a code unit outside ASCII lengthens its UTF-8 encoding by one byte, so the
  comparison throws instead of returning false.
\<close>

lemma bufferFrom_Cons: "bufferFrom (c # cs) = utf8Char c @ bufferFrom cs"
  by (simp add: bufferFrom_def)

lemma utf8Char_length: "length (utf8Char c) = (if isAscii c then 1 else 2)"
  by (simp add: utf8Char_def isAscii_def)

lemma bufferFrom_flip_length:
  "i < length s \<Longrightarrow> isAscii (s ! i) \<Longrightarrow> \<not> isAscii c
   \<Longrightarrow> length (bufferFrom (s[i := c])) = Suc (length (bufferFrom s))"
proof (induction s arbitrary: i)
  case Nil
  then show ?case by simp
next
  case (Cons a s)
  show ?case
  proof (cases i)
    case 0
    with Cons.prems show ?thesis by (simp add: bufferFrom_Cons utf8Char_length)
  next
    case (Suc j)
    with Cons.prems Cons.IH[of j] show ?thesis by (simp add: bufferFrom_Cons)
  qed
qed

lemma verifySignature_flip_outside_ascii:
  assumes "i < length (expectedSignature hmac b secret)" and "\<not> isAscii c"
  shows "verifySignature hmac b ((expectedSignature hmac b secret)[i := c]) secret = Inl RangeError"
proof -
  have "isAscii (expectedSignature hmac b secret ! i)"
    using expectedSignature_ascii[of hmac b secret] assms(1) unfolding list_all_length by simp
  from bufferFrom_flip_length[OF assms(1) this assms(2)] show ?thesis
    by (simp add: verifySignature_def timingSafeEqual_def)
qed

section \<open>Verification: project analysis\<close>

lemma find_present:
  "list_all (\<lambda>d. d \<noteq> []) dirs \<Longrightarrow> present (find P dirs) = list_ex P dirs"
  by (induction dirs) (auto simp: present_def)

lemma commonFrontendPaths_nonempty: "list_all (\<lambda>d. d \<noteq> []) commonFrontendPaths"
  by (simp add: commonFrontendPaths_def)

lemma commonBackendPaths_nonempty: "list_all (\<lambda>d. d \<noteq> []) commonBackendPaths"
  by (simp add: commonBackendPaths_def)

lemma conventional_none:
  "noConventionalManifest h p \<longleftrightarrow>
     (\<not> present (firstWithManifest h p commonFrontendPaths)
      \<and> \<not> present (firstWithManifest h p commonBackendPaths))"
  by (simp add: noConventionalManifest_def firstWithManifest_def
      find_present[OF commonFrontendPaths_nonempty] find_present[OF commonBackendPaths_nonempty]
      list_all_iff list_ex_iff ball_Un)

lemma scanEntry_rejects:
  "\<not> scanAccepts h p e \<Longrightarrow> \<not> present (fst acc) \<Longrightarrow> \<not> present (snd acc)
   \<Longrightarrow> \<not> present (fst (scanEntry h p acc e)) \<and> \<not> present (snd (scanEntry h p acc e))"
  by (cases acc; cases e)
     (auto simp: scanEntry_def scanAccepts_def present_def Let_def split: option.splits if_splits)

lemma scanEntry_keeps:
  "present (fst acc) \<or> present (snd acc)
   \<Longrightarrow> present (fst (scanEntry h p acc e)) \<or> present (snd (scanEntry h p acc e))"
  by (cases acc; cases e)
     (auto simp: scanEntry_def present_def Let_def split: option.splits if_splits)

lemma scanEntry_accepts:
  "scanAccepts h p e
   \<Longrightarrow> present (fst (scanEntry h p acc e)) \<or> present (snd (scanEntry h p acc e))"
  by (cases acc; cases e)
     (auto simp: scanEntry_def scanAccepts_def present_def Let_def split: option.splits if_splits)

lemma scan_fold_keeps:
  "present (fst acc) \<or> present (snd acc)
   \<Longrightarrow> present (fst (foldl (scanEntry h p) acc es)) \<or> present (snd (foldl (scanEntry h p) acc es))"
  by (induction es arbitrary: acc) (simp_all add: scanEntry_keeps)

lemma scan_fold_rejects:
  "list_all (\<lambda>e. \<not> scanAccepts h p e) es \<Longrightarrow> \<not> present (fst acc) \<Longrightarrow> \<not> present (snd acc)
   \<Longrightarrow> \<not> present (fst (foldl (scanEntry h p) acc es))
       \<and> \<not> present (snd (foldl (scanEntry h p) acc es))"
proof (induction es arbitrary: acc)
  case Nil
  then show ?case by simp
next
  case (Cons e es)
  from Cons.prems have "\<not> scanAccepts h p e" by simp
  from scanEntry_rejects[OF this Cons.prems(2,3)]
  have "\<not> present (fst (scanEntry h p acc e))" "\<not> present (snd (scanEntry h p acc e))" by simp_all
  with Cons.IH[of "scanEntry h p acc e"] Cons.prems(1) show ?case by simp
qed

lemma scan_fold_accepts:
  "list_ex (scanAccepts h p) es
   \<Longrightarrow> present (fst (foldl (scanEntry h p) acc es)) \<or> present (snd (foldl (scanEntry h p) acc es))"
proof (induction es arbitrary: acc)
  case Nil
  then show ?case by simp
next
  case (Cons e es)
  show ?case
  proof (cases "scanAccepts h p e")
    case True
    from scan_fold_keeps[OF scanEntry_accepts[OF True]] show ?thesis by simp
  next
    case False
    with Cons.prems have "list_ex (scanAccepts h p) es" by simp
    from Cons.IH[OF this] show ?thesis by simp
  qed
qed

lemma analyzeMonorepo_nothing:
  "(\<not> present (fst (analyzeMonorepo h p)) \<and> \<not> present (snd (analyzeMonorepo h p)))
   \<longleftrightarrow> (noConventionalManifest h p \<and> scanFindsNothing h p)"
proof (cases "noConventionalManifest h p")
  case False
  then show ?thesis
    by (auto simp: conventional_none analyzeMonorepo_def Let_def)
next
  case True
  then have np: "\<not> present (firstWithManifest h p commonFrontendPaths)"
      "\<not> present (firstWithManifest h p commonBackendPaths)"
    by (simp_all add: conventional_none)
  show ?thesis
  proof (cases "readdir h p")
    case None
    with True np show ?thesis by (simp add: analyzeMonorepo_def Let_def scanFindsNothing_def)
  next
    case (Some es)
    let ?acc = "(firstWithManifest h p commonFrontendPaths, firstWithManifest h p commonBackendPaths)"
    have am: "analyzeMonorepo h p = foldl (scanEntry h p) ?acc es"
      using np Some by (simp add: analyzeMonorepo_def Let_def)
    show ?thesis
    proof (cases "list_all (\<lambda>e. \<not> scanAccepts h p e) es")
      case all: True
      from scan_fold_rejects[OF all, of ?acc] np True Some all show ?thesis
        by (simp add: am scanFindsNothing_def)
    next
      case ex: False
      then have "list_ex (scanAccepts h p) es" by (auto simp: list_all_iff list_ex_iff)
      from scan_fold_accepts[OF this, of ?acc] ex Some show ?thesis
        by (auto simp: am scanFindsNothing_def)
    qed
  qed
qed


lemma detect_manifest_not_found:
  "detectProjectType h p t = Inl ManifestNotFound
   \<longleftrightarrow> (rootManifestMissing h p \<and> noConventionalManifest h p \<and> scanFindsNothing h p)"
proof (cases "readPackageJson h p")
  case (Inl e)
  then have "e \<noteq> ManifestNotFound"
    by (auto simp: readPackageJson_def split: if_splits option.splits)
  with Inl show ?thesis by (simp add: detectProjectType_def rootManifestMissing_def)
next
  case (Inr pj)
  show ?thesis
  proof (cases "truthy pj")
    case True
    with Inr show ?thesis
      by (simp add: detectProjectType_def rootManifestMissing_def split: option.splits)
  next
    case False
    have "detectWithoutManifest h p = Inl ManifestNotFound
       \<longleftrightarrow> (\<not> present (fst (analyzeMonorepo h p)) \<and> \<not> present (snd (analyzeMonorepo h p)))"
      by (cases "analyzeMonorepo h p") (simp add: detectWithoutManifest_def)
    with Inr False show ?thesis
      by (simp add: detectProjectType_def rootManifestMissing_def analyzeMonorepo_nothing)
  qed
qed

lemma detect_with_manifest:
  "readPackageJson h p = Inr pj \<Longrightarrow> truthy pj \<Longrightarrow> \<exists>a. detectProjectType h p t = Inr a"
  by (simp add: detectProjectType_def split: option.splits)

text \<open>The missing-manifest failure does not look at the type that was passed.\<close>

lemma explicit_type_without_manifest:
  "detectProjectType bareHost ''/var/apps/demo'' (Some BACKEND) = Inl ManifestNotFound"
  by (simp add: detectProjectType_def readPackageJson_def bareHost_def joinPath_def
      detectWithoutManifest_def analyzeMonorepo_def firstWithManifest_def hasManifest_def
      commonFrontendPaths_def commonBackendPaths_def present_def Let_def)

text \<open>
  Claim C3, amended. Called without an explicit type, the analyzer fails with the
  classification error exactly when the root has no usable manifest, none of the
  conventional sub-paths holds a manifest, and the scan of the first-level directories
  accepts none of them: a sub-directory manifest that declares no frontend or backend
  framework does not count. Whenever the root manifest is present, analysis does not fail,
  with or without an explicit type.
\<close>

theorem detectProjectType_classification_error:
  "((t = None \<or> t = Some UNKNOWN) \<longrightarrow>
      (detectProjectType h p t = Inl ManifestNotFound
       \<longleftrightarrow> (rootManifestMissing h p \<and> noConventionalManifest h p \<and> scanFindsNothing h p)))
   \<and> (readPackageJson h p = Inr pj \<and> truthy pj \<longrightarrow> (\<exists>a. detectProjectType h p t' = Inr a))"
  using detect_manifest_not_found[of h p t] detect_with_manifest[of h p pj t'] by blast

lemma hostLibOnly_fails:
  "detectProjectType hostLibOnly ''/var/apps/demo'' None = Inl ManifestNotFound"
  by (simp add: detectProjectType_def readPackageJson_def hostLibOnly_def bareHost_def joinPath_def
      detectWithoutManifest_def analyzeMonorepo_def firstWithManifest_def hasManifest_def
      commonFrontendPaths_def commonBackendPaths_def present_def scanEntry_def declaresAny_def
      mergedDeps_def Let_def)


text \<open>
  Claim C3, as stated, fails on a workspace with no root manifest whose only
  sub-directory \<open>lib\<close> is scanned and holds a manifest declaring just \<open>lodash\<close>: a
  manifest is found in a searched sub-directory, no explicit type is involved, and the
  analyzer still throws its classification error. It also fails on an empty workspace
  analysed with the explicit type \<open>backend\<close>: the error is thrown before the type is read.
\<close>

theorem detectProjectType_sub_manifest_counterexample:
  "readdir hostLibOnly ''/var/apps/demo'' = Some [(''lib'', True)]
   \<and> hasManifest hostLibOnly ''/var/apps/demo'' ''lib''
   \<and> detectProjectType hostLibOnly ''/var/apps/demo'' None = Inl ManifestNotFound
   \<and> detectProjectType bareHost ''/var/apps/demo'' (Some BACKEND) = Inl ManifestNotFound"
  using hostLibOnly_fails explicit_type_without_manifest
  by (simp add: hostLibOnly_def bareHost_def hasManifest_def joinPath_def)

lemma hostRootManifest_read:
  "truthy pkg \<Longrightarrow> readPackageJson (hostRootManifest pkg) ''/var/apps/demo'' = Inr pkg"
  by (simp add: readPackageJson_def hostRootManifest_def bareHost_def joinPath_def)

theorem detectProjectType_classification_error_witness:
  "rootManifestMissing hostLibOnly ''/var/apps/demo''
   \<and> noConventionalManifest hostLibOnly ''/var/apps/demo''
   \<and> scanFindsNothing hostLibOnly ''/var/apps/demo''
   \<and> detectProjectType hostLibOnly ''/var/apps/demo'' None = Inl ManifestNotFound
   \<and> (\<exists>a. detectProjectType (hostRootManifest expressManifest) ''/var/apps/demo'' (Some FRONTEND)
            = Inr a)"
proof -
  have root: "rootManifestMissing hostLibOnly ''/var/apps/demo''"
    by (simp add: rootManifestMissing_def readPackageJson_def hostLibOnly_def bareHost_def joinPath_def)
  have conv: "noConventionalManifest hostLibOnly ''/var/apps/demo''"
    by (simp add: noConventionalManifest_def hasManifest_def hostLibOnly_def bareHost_def
        joinPath_def commonFrontendPaths_def commonBackendPaths_def)
  have scan: "scanFindsNothing hostLibOnly ''/var/apps/demo''"
    by (simp add: scanFindsNothing_def scanAccepts_def hostLibOnly_def bareHost_def joinPath_def
        declaresAny_def mergedDeps_def)
  have m: "readPackageJson (hostRootManifest expressManifest) ''/var/apps/demo'' = Inr expressManifest
      \<and> truthy expressManifest"
    by (simp add: hostRootManifest_read expressManifest_def)
  show ?thesis
    using detectProjectType_classification_error[of None hostLibOnly "''/var/apps/demo''"
        expressManifest "Some FRONTEND"]
      detectProjectType_classification_error[of None "hostRootManifest expressManifest"
        "''/var/apps/demo''" expressManifest "Some FRONTEND"]
      root conv scan m
    by simp
qed

lemma detect_automatic:
  "readPackageJson h p = Inr pj \<Longrightarrow> truthy pj \<Longrightarrow> t = None \<or> t = Some UNKNOWN
   \<Longrightarrow> detectProjectType h p t = Inr (detectAutomatic h p pj (detectPackageManager h p))"
  by (auto simp: detectProjectType_def)

lemma workspaces_monorepo: "truthy (getProp pj ''workspaces'') \<Longrightarrow> isMonorepo h pj p"
  by (simp add: isMonorepo_def)

lemma detect_workspaces:
  assumes "readPackageJson h p = Inr pj" and "truthy pj" and "truthy (getProp pj ''workspaces'')"
  shows "\<exists>a. detectProjectType h p t = Inr a \<and> a_type a = MONOREPO"
proof (cases "t = None \<or> t = Some UNKNOWN")
  case True
  from detect_automatic[OF assms(1,2) True] workspaces_monorepo[OF assms(3)]
  show ?thesis by (simp add: detectAutomatic_def scriptAnalysis_def)
next
  case False
  then obtain ty where "t = Some ty" "ty \<noteq> UNKNOWN" by (cases t) auto
  with assms workspaces_monorepo[OF assms(3), of h p] show ?thesis
    by (simp add: detectProjectType_def detectUserSpecified_def Let_def scriptAnalysis_def)
qed

text \<open>
  Claim C6, amended. For a workspace with a root manifest and no explicit type: when no
  multi-package layout is detected (no truthy \<open>workspaces\<close>, no \<open>turbo\<close> or \<open>lerna\<close>
  dependency, no \<open>nx.json\<close>), a backend-framework dependency classifies it as backend,
  and a frontend-framework dependency without a backend one classifies it as frontend
  with the rendering mode and output directory of \<open>detectFrontendType\<close> (for example
  \<open>next\<close>: server-rendered, \<open>.next\<close>); a truthy \<open>workspaces\<close> field classifies it as
  multi-package whatever the dependencies and whatever type is passed.
\<close>

theorem detectProjectType_classification:
  "(readPackageJson h p = Inr pj \<and> truthy pj \<and> (t = None \<or> t = Some UNKNOWN)
      \<and> \<not> isMonorepo h pj p \<and> declaresAny pj backendFrameworks
    \<longrightarrow> (\<exists>a. detectProjectType h p t = Inr a \<and> a_type a = BACKEND))
   \<and> (readPackageJson h p = Inr pj \<and> truthy pj \<and> (t = None \<or> t = Some UNKNOWN)
      \<and> \<not> isMonorepo h pj p \<and> \<not> declaresAny pj backendFrameworks
      \<and> declaresAny pj frontendFrameworks
    \<longrightarrow> (\<exists>a. detectProjectType h p t = Inr a \<and> a_type a = FRONTEND
            \<and> a_isSSR a = fst (detectFrontendType pj)
            \<and> a_staticOutputDir a = snd (detectFrontendType pj)))
   \<and> (truthy (mergedDeps pj ''next'') \<longrightarrow> detectFrontendType pj = (True, Some ''.next''))
   \<and> (readPackageJson h p = Inr pj \<and> truthy pj \<and> truthy (getProp pj ''workspaces'')
    \<longrightarrow> (\<exists>a. detectProjectType h p t' = Inr a \<and> a_type a = MONOREPO))"
proof (intro conjI impI)
  assume a: "readPackageJson h p = Inr pj \<and> truthy pj \<and> (t = None \<or> t = Some UNKNOWN)
      \<and> \<not> isMonorepo h pj p \<and> declaresAny pj backendFrameworks"
  then have "detectProjectType h p t = Inr (detectAutomatic h p pj (detectPackageManager h p))"
    by (simp add: detect_automatic)
  with a show "\<exists>a. detectProjectType h p t = Inr a \<and> a_type a = BACKEND"
    by (simp add: detectAutomatic_def scriptAnalysis_def)
next
  assume a: "readPackageJson h p = Inr pj \<and> truthy pj \<and> (t = None \<or> t = Some UNKNOWN)
      \<and> \<not> isMonorepo h pj p \<and> \<not> declaresAny pj backendFrameworks
      \<and> declaresAny pj frontendFrameworks"
  then have "detectProjectType h p t = Inr (detectAutomatic h p pj (detectPackageManager h p))"
    by (simp add: detect_automatic)
  with a show "\<exists>a. detectProjectType h p t = Inr a \<and> a_type a = FRONTEND
            \<and> a_isSSR a = fst (detectFrontendType pj)
            \<and> a_staticOutputDir a = snd (detectFrontendType pj)"
    by (simp add: detectAutomatic_def scriptAnalysis_def)
next
  assume "truthy (mergedDeps pj ''next'')"
  then show "detectFrontendType pj = (True, Some ''.next'')"
    by (simp add: detectFrontendType_def)
next
  assume "readPackageJson h p = Inr pj \<and> truthy pj \<and> truthy (getProp pj ''workspaces'')"
  then show "\<exists>a. detectProjectType h p t' = Inr a \<and> a_type a = MONOREPO"
    using detect_workspaces[of h p pj t'] by simp
qed

text \<open>
  Claim C6, as stated, fails on a root manifest that depends on \<open>express\<close> and has no
  \<open>workspaces\<close> field but lists \<open>turbo\<close> among its dev dependencies: the claim
  classifies it as backend, the analyzer as multi-package.
\<close>

theorem detectProjectType_monorepo_tool_counterexample:
  "getProp expressTurboManifest ''workspaces'' = JUndefined
   \<and> getProp (getProp expressTurboManifest ''dependencies'') ''express'' = JStr ''^4.18.2''
   \<and> detectProjectType (hostRootManifest expressTurboManifest) ''/var/apps/demo'' None
       = Inr \<lparr> a_type = MONOREPO, a_packageManager = NPM, a_hasBuildScript = False,
               a_hasStartScript = True, a_buildCommand = JUndefined,
               a_startCommand = JStr ''node server.js'', a_frontendPath = None,
               a_backendPath = None, a_isSSR = False, a_staticOutputDir = None \<rparr>"
  by (simp add: expressTurboManifest_def detectProjectType_def readPackageJson_def
      hostRootManifest_def bareHost_def joinPath_def detectAutomatic_def isMonorepo_def
      detectPackageManager_def scriptAnalysis_def analyzeMonorepo_def firstWithManifest_def
      hasManifest_def commonFrontendPaths_def commonBackendPaths_def present_def Let_def)


theorem detectProjectType_classification_witness:
  "(\<exists>a. detectProjectType (hostRootManifest expressManifest) ''/var/apps/demo'' None = Inr a
         \<and> a_type a = BACKEND)
   \<and> (\<exists>a. detectProjectType (hostRootManifest nextManifest) ''/var/apps/demo'' None = Inr a
         \<and> a_type a = FRONTEND \<and> a_isSSR a \<and> a_staticOutputDir a = Some ''.next'')
   \<and> (\<exists>a. detectProjectType (hostRootManifest workspacesManifest) ''/var/apps/demo'' None = Inr a
         \<and> a_type a = MONOREPO)"
proof -
  have nx: "\<not> pathExists (hostRootManifest pkg) (joinPath ''/var/apps/demo'' ''nx.json'')" for pkg
    by (simp add: hostRootManifest_def bareHost_def joinPath_def)
  have backend: "readPackageJson (hostRootManifest expressManifest) ''/var/apps/demo'' = Inr expressManifest
      \<and> truthy expressManifest \<and> (None = None \<or> None = Some UNKNOWN)
      \<and> \<not> isMonorepo (hostRootManifest expressManifest) expressManifest ''/var/apps/demo''
      \<and> declaresAny expressManifest backendFrameworks"
    using nx[of expressManifest]
    by (simp add: hostRootManifest_read isMonorepo_def declaresAny_def mergedDeps_def
        backendFrameworks_def expressManifest_def)
  have frontend: "readPackageJson (hostRootManifest nextManifest) ''/var/apps/demo'' = Inr nextManifest
      \<and> truthy nextManifest \<and> (None = None \<or> None = Some UNKNOWN)
      \<and> \<not> isMonorepo (hostRootManifest nextManifest) nextManifest ''/var/apps/demo''
      \<and> \<not> declaresAny nextManifest backendFrameworks
      \<and> declaresAny nextManifest frontendFrameworks"
    using nx[of nextManifest]
    by (simp add: hostRootManifest_read isMonorepo_def declaresAny_def mergedDeps_def
        backendFrameworks_def frontendFrameworks_def nextManifest_def)
  have nxt: "truthy (mergedDeps nextManifest ''next'')"
    by (simp add: mergedDeps_def nextManifest_def)
  have mono: "readPackageJson (hostRootManifest workspacesManifest) ''/var/apps/demo'' = Inr workspacesManifest
      \<and> truthy workspacesManifest \<and> truthy (getProp workspacesManifest ''workspaces'')"
    by (simp add: hostRootManifest_read workspacesManifest_def)
  from detectProjectType_classification[where h = "hostRootManifest expressManifest"
      and p = "''/var/apps/demo''" and pj = expressManifest and t = None and t' = None] backend
  have r1: "\<exists>a. detectProjectType (hostRootManifest expressManifest) ''/var/apps/demo'' None = Inr a
         \<and> a_type a = BACKEND"
    by blast
  from detectProjectType_classification[where h = "hostRootManifest nextManifest"
      and p = "''/var/apps/demo''" and pj = nextManifest and t = None and t' = None] frontend nxt
  have r2: "\<exists>a. detectProjectType (hostRootManifest nextManifest) ''/var/apps/demo'' None = Inr a
         \<and> a_type a = FRONTEND \<and> a_isSSR a \<and> a_staticOutputDir a = Some ''.next''"
    by auto
  from detectProjectType_classification[where h = "hostRootManifest workspacesManifest"
      and p = "''/var/apps/demo''" and pj = workspacesManifest and t = None and t' = None] mono
  have r3: "\<exists>a. detectProjectType (hostRootManifest workspacesManifest) ''/var/apps/demo'' None = Inr a
         \<and> a_type a = MONOREPO"
    by blast
  show ?thesis using r1 r2 r3 by blast
qed


section \<open>Verification: the deploy pipeline\<close>

lemma deploy_failure_keeps_store:
  "deploy m h st config now = (res, st', ws) \<Longrightarrow> \<not> r_success res \<Longrightarrow> st' = st \<and> r_error res \<noteq> None"
  by (auto simp: deploy_def Let_def failed_def succeeded_def saveMetadata_def
      split: sum.splits prod.splits if_splits)

lemma deploy_success_stages:
  "deploy m h st config now = (res, st', ws) \<Longrightarrow> r_success res \<Longrightarrow>
   \<exists>projectPath analysis pm2ProcessName nginxConfigPath.
      earlierStagesSucceed h config projectPath analysis pm2ProcessName
      \<and> fst (generateNginxConfig m h
                (nginxOptions config projectPath analysis (resolvePort h (c_port config))))
          = Inr nginxConfigPath
      \<and> writeOk h (getMetadataPath (c_projectName config))
      \<and> st' = st(c_projectName config \<mapsto>
                   Stored (deployRecord config analysis (resolvePort h (c_port config))
                             pm2ProcessName nginxConfigPath now))
      \<and> r_error res = None"
  by (auto simp: deploy_def Let_def failed_def succeeded_def saveMetadata_def earlierStagesSucceed_def
      deployRecord_def
      split: sum.splits prod.splits if_splits)

lemma deploy_when_stages_succeed:
  "earlierStagesSucceed h config projectPath analysis pm2ProcessName
   \<Longrightarrow> generateNginxConfig m h
         (nginxOptions config projectPath analysis (resolvePort h (c_port config)))
       = (Inr nginxConfigPath, ws)
   \<Longrightarrow> writeOk h (getMetadataPath (c_projectName config))
   \<Longrightarrow> deploy m h st config now
       = (succeeded config projectPath (resolvePort h (c_port config)) nginxConfigPath pm2ProcessName,
          st(c_projectName config \<mapsto>
               Stored (deployRecord config analysis (resolvePort h (c_port config))
                         pm2ProcessName nginxConfigPath now)),
          ws @ reloadNginx m h)"
  by (simp add: deploy_def Let_def earlierStagesSucceed_def saveMetadata_def deployRecord_def)

lemma deploy_when_proxy_fails:
  "earlierStagesSucceed h config projectPath analysis pm2ProcessName
   \<Longrightarrow> generateNginxConfig m h
         (nginxOptions config projectPath analysis (resolvePort h (c_port config)))
       = (Inl e, ws)
   \<Longrightarrow> deploy m h st config now = (failed config projectPath e, st, ws)"
  by (simp add: deploy_def Let_def earlierStagesSucceed_def)


text \<open>
  Claim C1. For every deploy invocation the project record is written only after every
  stage has returned: a deploy that ends unsuccessfully leaves the metadata store as it was
  and carries an error; a successful deploy has gone through fetch, analysis, install,
  build, supervisor registration and proxy configuration, and ends with the record saved
  under the project's name; and the result is successful as soon as those stages and the
  final write succeed. (The reload step cannot fail the pipeline: see claim C2.)
\<close>

theorem deploy_record_after_all_stages:
  assumes d: "deploy m h st config now = (res, st', ws)"
  shows "(\<not> r_success res \<longrightarrow> st' = st \<and> r_error res \<noteq> None)
     \<and> (r_success res \<longrightarrow>
          (\<exists>projectPath analysis pm2ProcessName nginxConfigPath.
             earlierStagesSucceed h config projectPath analysis pm2ProcessName
             \<and> fst (generateNginxConfig m h
                       (nginxOptions config projectPath analysis (resolvePort h (c_port config))))
                 = Inr nginxConfigPath
             \<and> writeOk h (getMetadataPath (c_projectName config))
             \<and> loadMetadata st' (c_projectName config)
                 = Some (deployRecord config analysis (resolvePort h (c_port config))
                           pm2ProcessName nginxConfigPath now)))
     \<and> ((\<exists>projectPath analysis pm2ProcessName nginxConfigPath.
             earlierStagesSucceed h config projectPath analysis pm2ProcessName
             \<and> fst (generateNginxConfig m h
                       (nginxOptions config projectPath analysis (resolvePort h (c_port config))))
                 = Inr nginxConfigPath
             \<and> writeOk h (getMetadataPath (c_projectName config)))
          \<longrightarrow> r_success res)"
proof -
  have failure: "\<not> r_success res \<longrightarrow> st' = st \<and> r_error res \<noteq> None"
    using deploy_failure_keeps_store[OF d] by blast
  have success: "r_success res \<longrightarrow>
          (\<exists>projectPath analysis pm2ProcessName nginxConfigPath.
             earlierStagesSucceed h config projectPath analysis pm2ProcessName
             \<and> fst (generateNginxConfig m h
                       (nginxOptions config projectPath analysis (resolvePort h (c_port config))))
                 = Inr nginxConfigPath
             \<and> writeOk h (getMetadataPath (c_projectName config))
             \<and> loadMetadata st' (c_projectName config)
                 = Some (deployRecord config analysis (resolvePort h (c_port config))
                           pm2ProcessName nginxConfigPath now))"
  proof
    assume "r_success res"
    from deploy_success_stages[OF d this]
    obtain projectPath analysis pm2ProcessName nginxConfigPath where
      e: "earlierStagesSucceed h config projectPath analysis pm2ProcessName"
      and g: "fst (generateNginxConfig m h
                (nginxOptions config projectPath analysis (resolvePort h (c_port config))))
              = Inr nginxConfigPath"
      and w: "writeOk h (getMetadataPath (c_projectName config))"
      and s: "st' = st(c_projectName config \<mapsto>
                   Stored (deployRecord config analysis (resolvePort h (c_port config))
                             pm2ProcessName nginxConfigPath now))"
      by blast
    from s have "loadMetadata st' (c_projectName config)
        = Some (deployRecord config analysis (resolvePort h (c_port config))
                  pm2ProcessName nginxConfigPath now)"
      by (simp add: loadMetadata_def)
    with e g w show "\<exists>projectPath analysis pm2ProcessName nginxConfigPath.
             earlierStagesSucceed h config projectPath analysis pm2ProcessName
             \<and> fst (generateNginxConfig m h
                       (nginxOptions config projectPath analysis (resolvePort h (c_port config))))
                 = Inr nginxConfigPath
             \<and> writeOk h (getMetadataPath (c_projectName config))
             \<and> loadMetadata st' (c_projectName config)
                 = Some (deployRecord config analysis (resolvePort h (c_port config))
                           pm2ProcessName nginxConfigPath now)"
      by blast
  qed
  have complete: "(\<exists>projectPath analysis pm2ProcessName nginxConfigPath.
             earlierStagesSucceed h config projectPath analysis pm2ProcessName
             \<and> fst (generateNginxConfig m h
                       (nginxOptions config projectPath analysis (resolvePort h (c_port config))))
                 = Inr nginxConfigPath
             \<and> writeOk h (getMetadataPath (c_projectName config)))
          \<longrightarrow> r_success res"
  proof
    assume "\<exists>projectPath analysis pm2ProcessName nginxConfigPath.
             earlierStagesSucceed h config projectPath analysis pm2ProcessName
             \<and> fst (generateNginxConfig m h
                       (nginxOptions config projectPath analysis (resolvePort h (c_port config))))
                 = Inr nginxConfigPath
             \<and> writeOk h (getMetadataPath (c_projectName config))"
    then obtain projectPath analysis pm2ProcessName nginxConfigPath where
      e: "earlierStagesSucceed h config projectPath analysis pm2ProcessName"
      and g: "fst (generateNginxConfig m h
                (nginxOptions config projectPath analysis (resolvePort h (c_port config))))
              = Inr nginxConfigPath"
      and w: "writeOk h (getMetadataPath (c_projectName config))" by blast
    from g obtain ws' where "generateNginxConfig m h
         (nginxOptions config projectPath analysis (resolvePort h (c_port config)))
       = (Inr nginxConfigPath, ws')"
      by (cases "generateNginxConfig m h
         (nginxOptions config projectPath analysis (resolvePort h (c_port config)))") auto
    from deploy_when_stages_succeed[OF e this w, of st now] d
    show "r_success res" by (auto simp: succeeded_def)
  qed
  from failure success complete show ?thesis by blast
qed

lemma hostBackendRepo_port: "resolvePort (hostBackendRepo a b) (Some 3000) = Some 3000"
  by (simp add: resolvePort_def portGiven_def findAvailablePort_def findPortLoop.simps[of _ _ 10 _ 0]
      isPortInUse_def hostBackendRepo_def bareHost_def)

lemma hostBackendRepo_clone:
  "fst (cloneRepo (hostBackendRepo a b)
          \<lparr> co_repoUrl = ''https://github.com/acme/shop.git'', co_branch = ''main'',
            co_projectName = ''shop'', co_force = False \<rparr>) = Inr ''/var/apps/shop''"
  by (simp add: cloneRepo_def validateRepoUrl_def hostBackendRepo_def bareHost_def
      getProjectPath_def sanitize_shop joinPath_def toLowerCase_def lowerChar_def)

lemma hostBackendRepo_analyze:
  "analyzeStage (hostBackendRepo a b) shopConfig ''/var/apps/shop'' = Inr shopAnalysis"
  by (simp add: analyzeStage_def shopConfig_def detectProjectType_def readPackageJson_def
      hostBackendRepo_def bareHost_def joinPath_def expressManifest_def detectAutomatic_def
      isMonorepo_def declaresAny_def mergedDeps_def backendFrameworks_def scriptAnalysis_def
      detectPackageManager_def shopAnalysis_def)

lemma basename_shop: "basename ''/var/apps/shop'' = ''shop''"
  by (simp add: basename_def)

lemma hostBackendRepo_install:
  "installStage (hostBackendRepo a b) ''/var/apps/shop'' shopAnalysis = Inr ()"
  by (simp add: installStage_def shopAnalysis_def installDependencies_def installCommand_def
      workDirOf_def present_def hostBackendRepo_def bareHost_def)

lemma hostBackendRepo_build:
  "buildStage (hostBackendRepo a b) ''/var/apps/shop'' shopAnalysis = Inr ()"
  by (simp add: buildStage_def shopAnalysis_def buildProject_def)

lemma hostBackendRepo_run:
  "runStage (hostBackendRepo a b) shopConfig ''/var/apps/shop'' shopAnalysis (Some 3000)
     = Inr (Some ''shop'')"
  by (simp add: runStage_def shopAnalysis_def shopConfig_def runWithPM2_def Let_def workDirOf_def
      present_def processNameOf_def hostBackendRepo_def bareHost_def)

lemma hostBackendRepo_stages:
  "earlierStagesSucceed (hostBackendRepo a b) shopConfig ''/var/apps/shop'' shopAnalysis (Some ''shop'')"
  using hostBackendRepo_clone[of a b] hostBackendRepo_analyze hostBackendRepo_install
    hostBackendRepo_build hostBackendRepo_run hostBackendRepo_port
  by (simp add: earlierStagesSucceed_def shopConfig_def)


lemma hostBackendRepo_findNginx: "findNginx (hostBackendRepo a b) = ''nginx''"
  by (simp add: findNginx_def hostBackendRepo_def bareHost_def)

lemma shop_nginx_path: "getNginxConfigPath ''shop'' = ''/etc/nginx/conf.d/shop.conf''"
  by (simp add: getNginxConfigPath_def sanitize_shop joinPath_def)

lemma shop_chooseConfig:
  "chooseConfig (nginxOptions shopConfig ''/var/apps/shop'' shopAnalysis (Some 3000))
     = Inr (ProxyConfig ''shop.local'' 3000 ''/'')"
  by (simp add: chooseConfig_def nginxOptions_def shopConfig_def shopAnalysis_def Let_def
      portGiven_def orElse_def sanitize_shop)

lemma hostBackendRepo_commands:
  "execa (hostBackendRepo a b) ''sudo'' [''nginx'', ''-t''] [] = (if a then Some [] else None)"
  "execa (hostBackendRepo a b) ''nginx'' [''-t''] [] = (if a then Some [] else None)"
  "execa (hostBackendRepo a b) ''sudo'' [''nginx'', ''-s'', ''reload''] []
     = (if b then Some [] else None)"
  "execa (hostBackendRepo a b) ''nginx'' [''-s'', ''reload''] [] = (if b then Some [] else None)"
  "execa (hostBackendRepo a b) ''sudo'' [''cp'', x, y] [] = Some []"
  by (simp_all add: hostBackendRepo_def bareHost_def)

lemma hostBackendRepo_writes: "writeOk (hostBackendRepo a b) p"
  by (simp add: hostBackendRepo_def bareHost_def)

lemma shop_options_name:
  "no_projectName (nginxOptions shopConfig ''/var/apps/shop'' shopAnalysis (Some 3000)) = ''shop''"
  by (simp add: nginxOptions_def shopConfig_def)

lemma hostBackendRepo_nginx_sudo:
  "generateNginxConfig SudoCopy (hostBackendRepo a b)
       (nginxOptions shopConfig ''/var/apps/shop'' shopAnalysis (Some 3000))
     = (Inr ''/etc/nginx/conf.d/shop.conf'', if a then [] else [NginxSyntaxCheckFailed])"
  by (simp add: generateNginxConfig_def generateNginxConfig_sudo_def shop_chooseConfig
      shop_options_name shop_nginx_path hostBackendRepo_findNginx hostBackendRepo_commands
      hostBackendRepo_writes)

lemma hostBackendRepo_nginx_direct:
  "generateNginxConfig DirectWrite (hostBackendRepo a b)
       (nginxOptions shopConfig ''/var/apps/shop'' shopAnalysis (Some 3000))
     = (if a then Inr ''/etc/nginx/conf.d/shop.conf'' else Inl NginxConfigInvalid, [])"
  by (simp add: generateNginxConfig_def generateNginxConfig_direct_def shop_chooseConfig
      shop_options_name shop_nginx_path hostBackendRepo_commands hostBackendRepo_writes)

lemma hostBackendRepo_reload:
  "reloadNginx m (hostBackendRepo a b) = (if b then [] else [NginxReloadFailed])"
  by (cases m)
     (simp_all add: reloadNginx_def reloadNginx_direct_def reloadNginx_sudo_def
       hostBackendRepo_findNginx hostBackendRepo_commands)

lemma shop_record:
  "deployRecord shopConfig shopAnalysis (Some 3000) (Some ''shop'') ''/etc/nginx/conf.d/shop.conf''
     ''2026-02-01T00:00:00.000Z'' = shopDeployed"
  by (simp add: deployRecord_def shopConfig_def shopAnalysis_def shopDeployed_def typeName_def
      orElse_def)

lemma shop_port: "c_port shopConfig = Some 3000" and shop_name: "c_projectName shopConfig = ''shop''"
  by (simp_all add: shopConfig_def)

lemma deploy_shop_sudo:
  "deploy SudoCopy (hostBackendRepo a b) noProjects shopConfig ''2026-02-01T00:00:00.000Z''
     = (succeeded shopConfig ''/var/apps/shop'' (Some 3000) ''/etc/nginx/conf.d/shop.conf'' (Some ''shop''),
        noProjects(''shop'' \<mapsto> Stored shopDeployed),
        (if a then [] else [NginxSyntaxCheckFailed]) @ (if b then [] else [NginxReloadFailed]))"
  using deploy_when_stages_succeed[OF hostBackendRepo_stages[of a b], of SudoCopy
      "''/etc/nginx/conf.d/shop.conf''" "if a then [] else [NginxSyntaxCheckFailed]" noProjects
      "''2026-02-01T00:00:00.000Z''"]
  by (simp add: shop_port shop_name hostBackendRepo_port hostBackendRepo_nginx_sudo
      hostBackendRepo_writes shop_record hostBackendRepo_reload)

lemma deploy_shop_direct_invalid:
  "deploy DirectWrite (hostBackendRepo False b) noProjects shopConfig ''2026-02-01T00:00:00.000Z''
     = (failed shopConfig ''/var/apps/shop'' NginxConfigInvalid, noProjects, [])"
  using deploy_when_proxy_fails[OF hostBackendRepo_stages[of False b], of DirectWrite
      NginxConfigInvalid "[]" noProjects "''2026-02-01T00:00:00.000Z''"]
  by (simp add: shop_port hostBackendRepo_port hostBackendRepo_nginx_direct)

lemma deploy_shop_direct_valid:
  "deploy DirectWrite (hostBackendRepo True b) noProjects shopConfig ''2026-02-01T00:00:00.000Z''
     = (succeeded shopConfig ''/var/apps/shop'' (Some 3000) ''/etc/nginx/conf.d/shop.conf'' (Some ''shop''),
        noProjects(''shop'' \<mapsto> Stored shopDeployed),
        (if b then [] else [NginxReloadFailed]))"
  using deploy_when_stages_succeed[OF hostBackendRepo_stages[of True b], of DirectWrite
      "''/etc/nginx/conf.d/shop.conf''" "[]" noProjects "''2026-02-01T00:00:00.000Z''"]
  by (simp add: shop_port shop_name hostBackendRepo_port hostBackendRepo_nginx_direct
      hostBackendRepo_writes shop_record hostBackendRepo_reload)

theorem deploy_record_after_all_stages_witness:
  "r_success (fst (deploy SudoCopy (hostBackendRepo True True) noProjects shopConfig
                     ''2026-02-01T00:00:00.000Z''))
   \<and> loadMetadata (fst (snd (deploy SudoCopy (hostBackendRepo True True) noProjects shopConfig
                               ''2026-02-01T00:00:00.000Z''))) ''shop''
       = Some shopDeployed
   \<and> \<not> r_success (fst (deploy DirectWrite (hostBackendRepo False True) noProjects shopConfig
                          ''2026-02-01T00:00:00.000Z''))
   \<and> fst (snd (deploy DirectWrite (hostBackendRepo False True) noProjects shopConfig
                   ''2026-02-01T00:00:00.000Z'')) = noProjects"
proof -
  have ok: "r_success (succeeded shopConfig ''/var/apps/shop'' (Some 3000)
               ''/etc/nginx/conf.d/shop.conf'' (Some ''shop''))"
    by (simp add: succeeded_def)
  have bad: "\<not> r_success (failed shopConfig ''/var/apps/shop'' NginxConfigInvalid)"
    by (simp add: failed_def)
  from deploy_record_after_all_stages[OF deploy_shop_sudo[of True True]] ok
  have "\<exists>projectPath analysis pm2ProcessName nginxConfigPath.
      loadMetadata (noProjects(''shop'' \<mapsto> Stored shopDeployed)) (c_projectName shopConfig)
        = Some (deployRecord shopConfig analysis
                  (resolvePort (hostBackendRepo True True) (c_port shopConfig))
                  pm2ProcessName nginxConfigPath ''2026-02-01T00:00:00.000Z'')"
    by blast
  then have saved: "loadMetadata (noProjects(''shop'' \<mapsto> Stored shopDeployed)) ''shop''
      = Some shopDeployed"
    by (auto simp: loadMetadata_def shop_name)
  from deploy_record_after_all_stages[OF deploy_shop_direct_invalid[of True]] bad
  have kept: "noProjects = noProjects \<and> r_error (failed shopConfig ''/var/apps/shop'' NginxConfigInvalid) \<noteq> None"
    by blast
  show ?thesis
    using ok bad saved kept by (simp add: deploy_shop_sudo deploy_shop_direct_invalid)
qed


lemma nginxOptions_name: "no_projectName (nginxOptions config projectPath analysis port) = c_projectName config"
  by (simp add: nginxOptions_def)

lemma generate_sudo_result:
  "chooseConfig options = Inr content
   \<Longrightarrow> writeOk h (tempConfigPath (no_projectName options))
   \<Longrightarrow> execa h ''sudo'' [''cp'', tempConfigPath (no_projectName options),
                           getNginxConfigPath (no_projectName options)] [] \<noteq> None
   \<Longrightarrow> generateNginxConfig SudoCopy h options
       = (Inr (getNginxConfigPath (no_projectName options)),
          if execa h ''sudo'' [findNginx h, ''-t''] [] = None then [NginxSyntaxCheckFailed] else [])"
  by (auto simp: generateNginxConfig_def generateNginxConfig_sudo_def split: option.splits)

lemma generate_direct_result:
  "chooseConfig options = Inr content
   \<Longrightarrow> writeOk h (getNginxConfigPath (no_projectName options))
   \<Longrightarrow> generateNginxConfig DirectWrite h options
       = (if execa h ''nginx'' [''-t''] [] = None then Inl NginxConfigInvalid
          else Inr (getNginxConfigPath (no_projectName options)), [])"
  by (auto simp: generateNginxConfig_def generateNginxConfig_direct_def split: option.splits)

lemma reload_sudo_warns:
  "execa h ''sudo'' [findNginx h, ''-s'', ''reload''] [] = None
   \<Longrightarrow> execa h (findNginx h) [''-s'', ''reload''] [] = None
   \<Longrightarrow> reloadNginx SudoCopy h = [NginxReloadFailed]"
  by (simp add: reloadNginx_def reloadNginx_sudo_def)

lemma reload_direct_warns:
  "execa h ''sudo'' [''nginx'', ''-s'', ''reload''] [] = None
   \<Longrightarrow> execa h ''nginx'' [''-s'', ''reload''] [] = None
   \<Longrightarrow> reloadNginx DirectWrite h = [NginxReloadFailed]"
  by (simp add: reloadNginx_def reloadNginx_direct_def)

lemma deploy_sudo_tolerates_proxy_failures:
  assumes e: "earlierStagesSucceed h config projectPath analysis pm2ProcessName"
    and c: "chooseConfig (nginxOptions config projectPath analysis (resolvePort h (c_port config)))
            = Inr content"
    and t: "writeOk h (tempConfigPath (c_projectName config))"
    and cp: "execa h ''sudo'' [''cp'', tempConfigPath (c_projectName config),
                               getNginxConfigPath (c_projectName config)] [] \<noteq> None"
    and w: "writeOk h (getMetadataPath (c_projectName config))"
  shows "fst (generateNginxConfig SudoCopy h
                (nginxOptions config projectPath analysis (resolvePort h (c_port config))))
           = Inr (getNginxConfigPath (c_projectName config))
     \<and> r_success (fst (deploy SudoCopy h st config now))
     \<and> r_nginxConfigPath (fst (deploy SudoCopy h st config now))
         = Some (getNginxConfigPath (c_projectName config))
     \<and> (execa h ''sudo'' [findNginx h, ''-t''] [] = None
        \<longrightarrow> NginxSyntaxCheckFailed \<in> set (snd (snd (deploy SudoCopy h st config now))))
     \<and> (execa h ''sudo'' [findNginx h, ''-s'', ''reload''] [] = None
          \<and> execa h (findNginx h) [''-s'', ''reload''] [] = None
        \<longrightarrow> NginxReloadFailed \<in> set (snd (snd (deploy SudoCopy h st config now))))"
proof -
  let ?opts = "nginxOptions config projectPath analysis (resolvePort h (c_port config))"
  let ?ws = "if execa h ''sudo'' [findNginx h, ''-t''] [] = None then [NginxSyntaxCheckFailed] else []"
  have g: "generateNginxConfig SudoCopy h ?opts = (Inr (getNginxConfigPath (c_projectName config)), ?ws)"
    using generate_sudo_result[OF c, of h] t cp by (simp add: nginxOptions_name)
  from deploy_when_stages_succeed[OF e g w, of st now]
  have d: "deploy SudoCopy h st config now
     = (succeeded config projectPath (resolvePort h (c_port config))
          (getNginxConfigPath (c_projectName config)) pm2ProcessName,
        st(c_projectName config \<mapsto>
             Stored (deployRecord config analysis (resolvePort h (c_port config)) pm2ProcessName
                       (getNginxConfigPath (c_projectName config)) now)),
        ?ws @ reloadNginx SudoCopy h)" .
  show ?thesis
    by (simp add: g d succeeded_def reload_sudo_warns)
qed

lemma deploy_direct_tolerates_reload_failure:
  assumes e: "earlierStagesSucceed h config projectPath analysis pm2ProcessName"
    and c: "chooseConfig (nginxOptions config projectPath analysis (resolvePort h (c_port config)))
            = Inr content"
    and t: "writeOk h (getNginxConfigPath (c_projectName config))"
    and v: "execa h ''nginx'' [''-t''] [] \<noteq> None"
    and w: "writeOk h (getMetadataPath (c_projectName config))"
  shows "r_success (fst (deploy DirectWrite h st config now))
     \<and> (execa h ''sudo'' [''nginx'', ''-s'', ''reload''] [] = None
          \<and> execa h ''nginx'' [''-s'', ''reload''] [] = None
        \<longrightarrow> NginxReloadFailed \<in> set (snd (snd (deploy DirectWrite h st config now))))"
proof -
  let ?opts = "nginxOptions config projectPath analysis (resolvePort h (c_port config))"
  have g: "generateNginxConfig DirectWrite h ?opts
      = (Inr (getNginxConfigPath (c_projectName config)), [])"
    using generate_direct_result[OF c, of h] t v by (simp add: nginxOptions_name)
  from deploy_when_stages_succeed[OF e g w, of st now]
  show ?thesis by (simp add: succeeded_def reload_direct_warns)
qed

lemma deploy_direct_fails_on_invalid_config:
  assumes e: "earlierStagesSucceed h config projectPath analysis pm2ProcessName"
    and c: "chooseConfig (nginxOptions config projectPath analysis (resolvePort h (c_port config)))
            = Inr content"
    and t: "writeOk h (getNginxConfigPath (c_projectName config))"
    and v: "execa h ''nginx'' [''-t''] [] = None"
  shows "fst (generateNginxConfig DirectWrite h
                (nginxOptions config projectPath analysis (resolvePort h (c_port config))))
           = Inl NginxConfigInvalid
     \<and> \<not> r_success (fst (deploy DirectWrite h st config now))
     \<and> fst (snd (deploy DirectWrite h st config now)) = st"
proof -
  let ?opts = "nginxOptions config projectPath analysis (resolvePort h (c_port config))"
  have g: "generateNginxConfig DirectWrite h ?opts = (Inl NginxConfigInvalid, [])"
    using generate_direct_result[OF c, of h] t v by (simp add: nginxOptions_name)
  from deploy_when_proxy_fails[OF e g, of st now]
  show ?thesis by (simp add: g failed_def)
qed

text \<open>
  Claim C2, amended. When the earlier stages succeed, a failed reload is only a warning in
  both versions of the proxy module, and a failed syntax check is only a warning in the
  version that installs the file with \<open>sudo cp\<close>: \<open>generateNginxConfig\<close> returns the
  config path and the deploy is successful. In src/nginx/generateConfig.ts a failed
  \<open>nginx -t\<close> is rethrown as \<open>Nginx config invalid\<close>: the deploy is unsuccessful and no
  record is written.
\<close>

theorem deploy_proxy_failures:
  "(earlierStagesSucceed h config projectPath analysis pm2ProcessName
      \<and> chooseConfig (nginxOptions config projectPath analysis (resolvePort h (c_port config)))
          = Inr content
      \<and> writeOk h (tempConfigPath (c_projectName config))
      \<and> execa h ''sudo'' [''cp'', tempConfigPath (c_projectName config),
                           getNginxConfigPath (c_projectName config)] [] \<noteq> None
      \<and> writeOk h (getMetadataPath (c_projectName config))
    \<longrightarrow> fst (generateNginxConfig SudoCopy h
                (nginxOptions config projectPath analysis (resolvePort h (c_port config))))
           = Inr (getNginxConfigPath (c_projectName config))
        \<and> r_success (fst (deploy SudoCopy h st config now))
        \<and> r_nginxConfigPath (fst (deploy SudoCopy h st config now))
            = Some (getNginxConfigPath (c_projectName config))
        \<and> (execa h ''sudo'' [findNginx h, ''-t''] [] = None
           \<longrightarrow> NginxSyntaxCheckFailed \<in> set (snd (snd (deploy SudoCopy h st config now))))
        \<and> (execa h ''sudo'' [findNginx h, ''-s'', ''reload''] [] = None
             \<and> execa h (findNginx h) [''-s'', ''reload''] [] = None
           \<longrightarrow> NginxReloadFailed \<in> set (snd (snd (deploy SudoCopy h st config now)))))
   \<and> (earlierStagesSucceed h config projectPath analysis pm2ProcessName
      \<and> chooseConfig (nginxOptions config projectPath analysis (resolvePort h (c_port config)))
          = Inr content
      \<and> writeOk h (getNginxConfigPath (c_projectName config))
      \<and> execa h ''nginx'' [''-t''] [] \<noteq> None
      \<and> writeOk h (getMetadataPath (c_projectName config))
    \<longrightarrow> r_success (fst (deploy DirectWrite h st config now))
        \<and> (execa h ''sudo'' [''nginx'', ''-s'', ''reload''] [] = None
             \<and> execa h ''nginx'' [''-s'', ''reload''] [] = None
           \<longrightarrow> NginxReloadFailed \<in> set (snd (snd (deploy DirectWrite h st config now)))))
   \<and> (earlierStagesSucceed h config projectPath analysis pm2ProcessName
      \<and> chooseConfig (nginxOptions config projectPath analysis (resolvePort h (c_port config)))
          = Inr content
      \<and> writeOk h (getNginxConfigPath (c_projectName config))
      \<and> execa h ''nginx'' [''-t''] [] = None
    \<longrightarrow> fst (generateNginxConfig DirectWrite h
                (nginxOptions config projectPath analysis (resolvePort h (c_port config))))
           = Inl NginxConfigInvalid
        \<and> \<not> r_success (fst (deploy DirectWrite h st config now))
        \<and> fst (snd (deploy DirectWrite h st config now)) = st)"
  using deploy_sudo_tolerates_proxy_failures[of h config projectPath analysis pm2ProcessName content st now]
    deploy_direct_tolerates_reload_failure[of h config projectPath analysis pm2ProcessName content st now]
    deploy_direct_fails_on_invalid_config[of h config projectPath analysis pm2ProcessName content st now]
  by blast

text \<open>
  Claim C2, as stated, fails for \<open>generateNginxConfig\<close> of src/nginx/generateConfig.ts:
  every earlier stage of the deploy succeeds, \<open>nginx -t\<close> fails, and the function throws
  instead of returning the path, so the deploy result is unsuccessful.
\<close>

theorem deploy_invalid_config_counterexample:
  "earlierStagesSucceed (hostBackendRepo False True) shopConfig ''/var/apps/shop'' shopAnalysis
     (Some ''shop'')
   \<and> execa (hostBackendRepo False True) ''nginx'' [''-t''] [] = None
   \<and> fst (generateNginxConfig DirectWrite (hostBackendRepo False True)
            (nginxOptions shopConfig ''/var/apps/shop'' shopAnalysis (Some 3000)))
       = Inl NginxConfigInvalid
   \<and> r_success (fst (deploy DirectWrite (hostBackendRepo False True) noProjects shopConfig
                       ''2026-02-01T00:00:00.000Z'')) = False
   \<and> r_error (fst (deploy DirectWrite (hostBackendRepo False True) noProjects shopConfig
                     ''2026-02-01T00:00:00.000Z'')) = Some NginxConfigInvalid"
  using hostBackendRepo_stages[of False True]
  by (simp add: deploy_shop_direct_invalid failed_def hostBackendRepo_nginx_direct
      hostBackendRepo_commands)

theorem deploy_proxy_failures_witness:
  "r_success (fst (deploy SudoCopy (hostBackendRepo False False) noProjects shopConfig
                     ''2026-02-01T00:00:00.000Z''))
   \<and> r_nginxConfigPath (fst (deploy SudoCopy (hostBackendRepo False False) noProjects shopConfig
                               ''2026-02-01T00:00:00.000Z''))
       = Some ''/etc/nginx/conf.d/shop.conf''
   \<and> NginxSyntaxCheckFailed \<in> set (snd (snd (deploy SudoCopy (hostBackendRepo False False)
                                                 noProjects shopConfig ''2026-02-01T00:00:00.000Z'')))
   \<and> NginxReloadFailed \<in> set (snd (snd (deploy SudoCopy (hostBackendRepo False False)
                                            noProjects shopConfig ''2026-02-01T00:00:00.000Z'')))
   \<and> r_success (fst (deploy DirectWrite (hostBackendRepo True False) noProjects shopConfig
                       ''2026-02-01T00:00:00.000Z''))
   \<and> NginxReloadFailed \<in> set (snd (snd (deploy DirectWrite (hostBackendRepo True False)
                                            noProjects shopConfig ''2026-02-01T00:00:00.000Z'')))
   \<and> \<not> r_success (fst (deploy DirectWrite (hostBackendRepo False False) noProjects shopConfig
                         ''2026-02-01T00:00:00.000Z''))
   \<and> fst (snd (deploy DirectWrite (hostBackendRepo False False) noProjects shopConfig
                  ''2026-02-01T00:00:00.000Z'')) = noProjects"
proof -
  have stages: "earlierStagesSucceed (hostBackendRepo a b) shopConfig ''/var/apps/shop'' shopAnalysis
      (Some ''shop'')" for a b
    by (rule hostBackendRepo_stages)
  have choose: "chooseConfig (nginxOptions shopConfig ''/var/apps/shop'' shopAnalysis
        (resolvePort (hostBackendRepo a b) (c_port shopConfig)))
      = Inr (ProxyConfig ''shop.local'' 3000 ''/'')" for a b
    by (simp add: shop_port hostBackendRepo_port shop_chooseConfig)
  have cp: "execa (hostBackendRepo a b) ''sudo''
        [''cp'', tempConfigPath (c_projectName shopConfig), getNginxConfigPath (c_projectName shopConfig)] []
      \<noteq> None" for a b
    by (simp add: hostBackendRepo_commands)
  have path: "getNginxConfigPath (c_projectName shopConfig) = ''/etc/nginx/conf.d/shop.conf''"
    by (simp add: shop_name shop_nginx_path)
  note facts = stages choose cp path hostBackendRepo_writes hostBackendRepo_commands
    hostBackendRepo_findNginx
  from deploy_proxy_failures[where h = "hostBackendRepo False False" and config = shopConfig
      and projectPath = "''/var/apps/shop''" and analysis = shopAnalysis
      and pm2ProcessName = "Some ''shop''" and content = "ProxyConfig ''shop.local'' 3000 ''/''"
      and st = noProjects and now = "''2026-02-01T00:00:00.000Z''"]
  have both: "r_success (fst (deploy SudoCopy (hostBackendRepo False False) noProjects shopConfig
                     ''2026-02-01T00:00:00.000Z''))
   \<and> r_nginxConfigPath (fst (deploy SudoCopy (hostBackendRepo False False) noProjects shopConfig
                               ''2026-02-01T00:00:00.000Z''))
       = Some ''/etc/nginx/conf.d/shop.conf''
   \<and> NginxSyntaxCheckFailed \<in> set (snd (snd (deploy SudoCopy (hostBackendRepo False False)
                                                 noProjects shopConfig ''2026-02-01T00:00:00.000Z'')))
   \<and> NginxReloadFailed \<in> set (snd (snd (deploy SudoCopy (hostBackendRepo False False)
                                            noProjects shopConfig ''2026-02-01T00:00:00.000Z'')))
   \<and> \<not> r_success (fst (deploy DirectWrite (hostBackendRepo False False) noProjects shopConfig
                         ''2026-02-01T00:00:00.000Z''))
   \<and> fst (snd (deploy DirectWrite (hostBackendRepo False False) noProjects shopConfig
                  ''2026-02-01T00:00:00.000Z'')) = noProjects"
    by (simp add: facts)
  from deploy_proxy_failures[where h = "hostBackendRepo True False" and config = shopConfig
      and projectPath = "''/var/apps/shop''" and analysis = shopAnalysis
      and pm2ProcessName = "Some ''shop''" and content = "ProxyConfig ''shop.local'' 3000 ''/''"
      and st = noProjects and now = "''2026-02-01T00:00:00.000Z''"]
  have reload: "r_success (fst (deploy DirectWrite (hostBackendRepo True False) noProjects shopConfig
                       ''2026-02-01T00:00:00.000Z''))
   \<and> NginxReloadFailed \<in> set (snd (snd (deploy DirectWrite (hostBackendRepo True False)
                                            noProjects shopConfig ''2026-02-01T00:00:00.000Z'')))"
    by (simp add: facts)
  from both reload show ?thesis by blast
qed


end
